theory Spec2Isabelle
  imports Main "HOL-Library.Word"
begin

unbundle bit_operations_syntax

section \<open>The ADB container engine of apk-tools (src/adb.c)\<close>

text \<open>
  The embedding fixes the ABI the package manager is built for: a little-endian LP64
  target. \<open>htole32\<close>, \<open>le32toh\<close> and \<open>le16toh\<close> are the identity, \<open>size_t\<close> has
  64 bits and a data pointer has 8 bytes. Sizes and offsets of type \<open>size_t\<close> are
  natural numbers: an offset is a 28-bit payload plus a small constant and a length has at
  most 32 bits, so no sum of them reaches \<open>2 ^ 64\<close>; the one subtraction that can wrap
  (in \<open>adb_m_stream\<close>) is written out modulo \<open>2 ^ 64\<close>.
\<close>

type_synonym byte = "8 word"
type_synonym adb_val_t = "32 word"

subsection \<open>Outcomes that are not return values\<close>

text \<open>
  A C function that dereferences a null pointer, reads past the end of the arena or fails an
  \<open>assert\<close> does not return. Such an outcome is the left summand of the result.
\<close>

datatype fault = NullDeref | OutOfBounds | AssertFailed

subsection \<open>Blobs and the database record\<close>

text \<open>
  \<open>apk_blob_t\<close> is a pointer with a length. The pointer is modelled by the bytes it points
  to, \<open>None\<close> being the null pointer; \<open>APK_BLOB_IS_NULL\<close> tests the pointer only.
\<close>

record apk_blob_t =
  len :: nat
  ptr :: "byte list option"

definition APK_BLOB_NULL :: apk_blob_t where
  "APK_BLOB_NULL = \<lparr>len = 0, ptr = None\<rparr>"

definition APK_BLOB_IS_NULL :: "apk_blob_t \<Rightarrow> bool" where
  "APK_BLOB_IS_NULL b = (ptr b = None)"

definition APK_BLOB_PTR_LEN :: "byte list option \<Rightarrow> nat \<Rightarrow> apk_blob_t" where
  "APK_BLOB_PTR_LEN p l = \<lparr>len = l, ptr = p\<rparr>"

record adb_header =
  magic :: "32 word"
  schema :: "32 word"

text \<open>One slot of a dedup bucket: \<open>struct adb_w_bucket_entry\<close>.\<close>

record adb_w_bucket_entry =
  ent_hash :: "32 word"
  ent_offs :: "32 word"
  ent_len :: "32 word"

type_synonym adb_w_bucket = "adb_w_bucket_entry list"

text \<open>
  \<open>struct adb\<close>. \<open>bucket\<close> is the caller's array of list heads, indexed by bucket number;
  each chain is the list of its buckets in list order.
\<close>

record adb =
  mmap :: apk_blob_t
  data :: apk_blob_t
  adb :: apk_blob_t
  hdr :: adb_header
  num_buckets :: nat
  bucket :: "nat \<Rightarrow> adb_w_bucket list"

subsection \<open>Value encoding (macros of adb.h)\<close>

text \<open>
  Modelled from the spec: the header adb.h is not among the sources. A value is a 32-bit
  word, a 4-bit type tag above a 28-bit payload (spec 3.1). The spec names the tags and not
  their numbers; the numbers below are those of the format, and every result of this theory
  uses only that they are distinct multiples of \<open>2 ^ 28\<close>.
\<close>

definition ADB_TYPE_SPECIAL :: adb_val_t where "ADB_TYPE_SPECIAL = 0x00000000"
definition ADB_TYPE_INT :: adb_val_t where "ADB_TYPE_INT = 0x10000000"
definition ADB_TYPE_INT_32 :: adb_val_t where "ADB_TYPE_INT_32 = 0x20000000"
definition ADB_TYPE_INT_64 :: adb_val_t where "ADB_TYPE_INT_64 = 0x30000000"
definition ADB_TYPE_BLOB_8 :: adb_val_t where "ADB_TYPE_BLOB_8 = 0x80000000"
definition ADB_TYPE_BLOB_16 :: adb_val_t where "ADB_TYPE_BLOB_16 = 0x90000000"
definition ADB_TYPE_BLOB_32 :: adb_val_t where "ADB_TYPE_BLOB_32 = 0xa0000000"
definition ADB_TYPE_ARRAY :: adb_val_t where "ADB_TYPE_ARRAY = 0xd0000000"
definition ADB_TYPE_OBJECT :: adb_val_t where "ADB_TYPE_OBJECT = 0xe0000000"
definition ADB_TYPE_ERROR :: adb_val_t where "ADB_TYPE_ERROR = 0xf0000000"
definition ADB_TYPE_MASK :: adb_val_t where "ADB_TYPE_MASK = 0xf0000000"
definition ADB_VALUE_MASK :: adb_val_t where "ADB_VALUE_MASK = 0x0fffffff"

definition ADB_VAL_TYPE :: "adb_val_t \<Rightarrow> adb_val_t" where
  "ADB_VAL_TYPE x = x AND ADB_TYPE_MASK"

definition ADB_VAL_VALUE :: "adb_val_t \<Rightarrow> adb_val_t" where
  "ADB_VAL_VALUE x = x AND ADB_VALUE_MASK"

text \<open>\<open>ADB_VAL(type, val)\<close>; the callers pass a \<open>size_t\<close>, which the result type cuts to 32 bits.\<close>

definition ADB_VAL :: "adb_val_t \<Rightarrow> nat \<Rightarrow> adb_val_t" where
  "ADB_VAL ty v = ty OR of_nat v"

definition ADB_ERROR :: "nat \<Rightarrow> adb_val_t" where
  "ADB_ERROR rc = ADB_VAL ADB_TYPE_ERROR rc"

definition ADB_IS_ERROR :: "adb_val_t \<Rightarrow> bool" where
  "ADB_IS_ERROR x = (ADB_VAL_TYPE x = ADB_TYPE_ERROR)"

definition ADB_VAL_NULL :: adb_val_t where "ADB_VAL_NULL = 0"

definition ADB_NULL :: adb_val_t where
  "ADB_NULL = ADB_VAL ADB_TYPE_SPECIAL 0"

definition ADB_FORMAT_MAGIC :: "32 word" where "ADB_FORMAT_MAGIC = 0x2e424441"

text \<open>\<open>sizeof\<close> of a data pointer and of \<open>adb_val_t\<close> on the target.\<close>

definition sizeof_pointer :: nat where "sizeof_pointer = 8"
definition sizeof_adb_val_t :: nat where "sizeof_adb_val_t = 4"

text \<open>errno numbers of Linux, as the C library defines them.\<close>

definition EIO :: int where "EIO = 5"
definition E2BIG :: int where "E2BIG = 7"
definition ENOSYS :: int where "ENOSYS = 38"
definition ENOMSG :: int where "ENOMSG = 42"
definition EBADMSG :: int where "EBADMSG = 74"
definition ENOBUFS :: int where "ENOBUFS = 105"
definition ENOKEY :: int where "ENOKEY = 126"

subsection \<open>Little-endian memory reads\<close>

text \<open>
  A read of \<open>n\<close> bytes at offset \<open>p\<close> of a buffer whose content is \<open>bs\<close>. A read that
  leaves the buffer is a fault: the C code would read whatever lies behind the arena.
\<close>

definition mem_read :: "byte list \<Rightarrow> nat \<Rightarrow> nat \<Rightarrow> fault + byte list" where
  "mem_read bs p n = (if p + n \<le> length bs then Inr (take n (drop p bs)) else Inl OutOfBounds)"

fun le_word :: "byte list \<Rightarrow> 32 word" where
  "le_word [] = 0"
| "le_word (b # bs) = ucast b OR push_bit 8 (le_word bs)"

text \<open>The bytes of a 32-bit (16-bit, 8-bit) integer in memory, lowest byte first.\<close>

definition le32_bytes :: "32 word \<Rightarrow> byte list" where
  "le32_bytes w = [ucast w, ucast (drop_bit 8 w), ucast (drop_bit 16 w), ucast (drop_bit 24 w)]"

definition le16_bytes :: "32 word \<Rightarrow> byte list" where
  "le16_bytes w = [ucast w, ucast (drop_bit 8 w)]"

definition arena :: "adb \<Rightarrow> byte list" where
  "arena db = (case ptr (adb db) of None \<Rightarrow> [] | Some bs \<Rightarrow> bs)"

subsection \<open>Read interface\<close>

text \<open>
  \<open>adb_r_deref\<close>: the pointer \<open>db->adb.ptr + offs\<close> is modelled by the offset into the
  arena; \<open>None\<close> is the null pointer (also what a null arena pointer plus zero is).
\<close>

definition adb_r_deref :: "adb \<Rightarrow> adb_val_t \<Rightarrow> nat \<Rightarrow> nat \<Rightarrow> nat option" where
  "adb_r_deref db v offs0 s =
     (let offs = offs0 + unat (ADB_VAL_VALUE v) in
      if offs + s > len (adb db) then None
      else if ptr (adb db) = None \<and> offs = 0 then None
      else Some offs)"

text \<open>Dereferencing what \<open>adb_r_deref\<close> returned, without a null check.\<close>

definition deref_bytes :: "adb \<Rightarrow> nat option \<Rightarrow> nat \<Rightarrow> fault + byte list" where
  "deref_bytes db p n =
     (case p of None \<Rightarrow> Inl NullDeref | Some q \<Rightarrow> mem_read (arena db) q n)"

definition adb_r_root :: "adb \<Rightarrow> fault + adb_val_t" where
  "adb_r_root db =
     (if len (adb db) < sizeof_adb_val_t then Inr ADB_NULL
      else case mem_read (arena db) (len (adb db) - sizeof_adb_val_t) 4 of
             Inl f \<Rightarrow> Inl f
           | Inr bs \<Rightarrow> Inr (le_word bs))"

text \<open>
  \<open>adb_r_int\<close>. The size handed to \<open>adb_r_deref\<close> is \<open>sizeof int4\<close>, and \<open>int4\<close> is
  declared \<open>uint32_t *\<close>: the size of a pointer.
\<close>

definition adb_r_int :: "adb \<Rightarrow> adb_val_t \<Rightarrow> fault + 32 word" where
  "adb_r_int db v =
     (if ADB_VAL_TYPE v = ADB_TYPE_INT then Inr (ADB_VAL_VALUE v)
      else if ADB_VAL_TYPE v = ADB_TYPE_INT_32 then
        (case adb_r_deref db v 0 sizeof_pointer of
           None \<Rightarrow> Inr 0
         | Some p \<Rightarrow> (case mem_read (arena db) p 4 of
                        Inl f \<Rightarrow> Inl f
                      | Inr bs \<Rightarrow> Inr (le_word bs)))
      else Inr 0)"

text \<open>
  \<open>adb_r_blob\<close>. The pointer to the length prefix is dereferenced as it comes back from
  \<open>adb_r_deref\<close>; the pointer to the data goes into the result unchecked, next to the
  length that was read.
\<close>

definition r_blob_n :: "adb \<Rightarrow> adb_val_t \<Rightarrow> nat \<Rightarrow> fault + apk_blob_t" where
  "r_blob_n db v w =
     (case deref_bytes db (adb_r_deref db v 0 w) w of
        Inl f \<Rightarrow> Inl f
      | Inr pre \<Rightarrow>
          (let l = unat (le_word pre) in
           Inr (APK_BLOB_PTR_LEN
                  (case adb_r_deref db v w l of
                     None \<Rightarrow> None
                   | Some q \<Rightarrow> Some (take l (drop q (arena db))))
                  l)))"

definition adb_r_blob :: "adb \<Rightarrow> adb_val_t \<Rightarrow> fault + apk_blob_t" where
  "adb_r_blob db v =
     (if ADB_VAL_TYPE v = ADB_TYPE_BLOB_8 then r_blob_n db v 1
      else if ADB_VAL_TYPE v = ADB_TYPE_BLOB_16 then r_blob_n db v 2
      else if ADB_VAL_TYPE v = ADB_TYPE_BLOB_32 then r_blob_n db v 4
      else Inr APK_BLOB_NULL)"

subsection \<open>Write interface: raw append\<close>

text \<open>
  A \<open>struct iovec\<close> array is the list of its fragments, each the \<open>iov_len\<close> bytes at
  its \<open>iov_base\<close>.
\<close>

definition iovec_len :: "byte list list \<Rightarrow> nat" where
  "iovec_len vec = foldl (\<lambda>l f. l + length f) 0 vec"

text \<open>
  Modelled from the spec: \<open>apk_blob_hash_seed\<close> (blob.c) is not among the sources. Spec
  4.3: a 32-bit hash, seeded 5381, \<open>h = h*33 ^ byte\<close>. The C function computes in
  \<open>unsigned long\<close> and \<open>iovec_hash\<close> cuts each result to \<open>unsigned\<close>; multiplication by
  33 and exclusive or commute with that cut, so the model computes in 32 bits.
\<close>

definition apk_blob_hash_seed :: "byte list \<Rightarrow> 32 word \<Rightarrow> 32 word" where
  "apk_blob_hash_seed b seed = foldl (\<lambda>h c. (h * 33) XOR ucast c) seed b"

text \<open>\<open>iovec_hash\<close> returns the hash and stores the total length through \<open>len\<close>.\<close>

definition iovec_hash :: "byte list list \<Rightarrow> 32 word \<times> nat" where
  "iovec_hash vec =
     foldl (\<lambda>(h, l) f. (apk_blob_hash_seed f h, l + length f)) (5381, 0) vec"

text \<open>
  \<open>iovec_memcmp\<close> against the memory at \<open>base\<close>, given as the arena bytes from \<open>base\<close>
  on. Where the arena ends before a fragment does, the model answers "different".
\<close>

fun iovec_memcmp :: "byte list list \<Rightarrow> byte list \<Rightarrow> nat" where
  "iovec_memcmp [] b = 0"
| "iovec_memcmp (f # fs) b =
     (if take (length f) b \<noteq> f then 1 else iovec_memcmp fs (drop (length f) b))"

text \<open>
  Modelled from the spec: the macro \<open>ROUND_UP\<close> (apk_defines.h) is not among the sources.
  Spec 4.3: the append "first pads zeroes to the requested alignment".
\<close>

definition ROUND_UP :: "nat \<Rightarrow> nat \<Rightarrow> nat" where
  "ROUND_UP x a = ((x + a - 1) div a) * a"

text \<open>
  The doubling loop of \<open>adb_w_raw\<close>. It is entered with a capacity of at least 8192; the
  guard \<open>0 < cap\<close> only makes the function total.
\<close>

function grow_cap :: "nat \<Rightarrow> nat \<Rightarrow> nat" where
  "grow_cap need cap = (if cap < need \<and> 0 < cap then grow_cap need (cap * 2) else cap)"
  by pat_completeness auto
termination
  by (relation "measure (\<lambda>(need, cap). need - cap)") auto

declare grow_cap.simps [simp del]

text \<open>
  \<open>memset\<close> and \<open>memcpy\<close> at the end of the arena. The buffer holds \<open>mmap.len\<close> bytes,
  of which the first \<open>adb.len\<close> are the arena.
\<close>

definition w_store :: "adb \<Rightarrow> byte list \<Rightarrow> fault + adb" where
  "w_store db bs =
     (if bs = [] then Inr db
      else case ptr (adb db) of
        None \<Rightarrow> Inl NullDeref
      | Some old \<Rightarrow>
          if len (adb db) + length bs > len (mmap db) then Inl OutOfBounds
          else Inr (db\<lparr>adb := \<lparr>len = len (adb db) + length bs,
                                ptr = Some (take (len (adb db)) old @ bs)\<rparr>\<rparr>))"

fun w_store_all :: "adb \<Rightarrow> byte list list \<Rightarrow> fault + adb" where
  "w_store_all db [] = Inr db"
| "w_store_all db (f # fs) =
     (case w_store db f of Inl e \<Rightarrow> Inl e | Inr db' \<Rightarrow> w_store_all db' fs)"

definition w_grow :: "adb \<Rightarrow> nat \<Rightarrow> fault + adb" where
  "w_grow db l =
     (if len (adb db) + l > len (mmap db) then
        (if num_buckets db = 0 then Inl AssertFailed
         else
           let cap0 = (if len (mmap db) = 0 then 8192 else len (mmap db));
               cap = grow_cap (len (adb db) + l) cap0
           in Inr (db\<lparr>mmap := (mmap db)\<lparr>len := cap\<rparr>,
                      adb := (adb db)\<lparr>ptr := Some (arena db)\<rparr>\<rparr>))
      else Inr db)"

definition adb_w_raw :: "adb \<Rightarrow> byte list list \<Rightarrow> nat \<Rightarrow> nat \<Rightarrow> fault + nat \<times> adb" where
  "adb_w_raw db vec l alignment =
     (case w_store db (replicate (ROUND_UP (len (adb db)) alignment - len (adb db)) 0) of
        Inl e \<Rightarrow> Inl e
      | Inr db1 \<Rightarrow>
          (case w_grow db1 l of
             Inl e \<Rightarrow> Inl e
           | Inr db2 \<Rightarrow>
               (case w_store_all db2 vec of
                  Inl e \<Rightarrow> Inl e
                | Inr db3 \<Rightarrow> Inr (len (adb db2), db3))))"

subsection \<open>Write interface: interning\<close>

text \<open>
  Modelled from the spec: \<open>struct adb_w_bucket\<close> is declared in adb.h, which is not among
  the sources. Spec 3.5: each bucket is a chain of fixed-capacity entries
  \<open>{hash, len, offs}\<close>. The capacity is that of the format's header; \<open>calloc\<close> zeroes a
  new bucket.
\<close>

definition adb_w_bucket_entries :: nat where "adb_w_bucket_entries = 40"

definition empty_entry :: adb_w_bucket_entry where
  "empty_entry = \<lparr>ent_hash = 0, ent_offs = 0, ent_len = 0\<rparr>"

definition new_bucket :: adb_w_bucket where
  "new_bucket = replicate adb_w_bucket_entries empty_entry"

text \<open>
  Where the two loops of \<open>adb_w_data\<close> leave: \<open>return entry->offs\<close>, \<open>goto add\<close> with
  \<open>entry\<close> at slot \<open>i\<close> of bucket \<open>j\<close> of the chain, or the end of the chain.
\<close>

datatype w_slot = Reuse nat | Add_At nat nat | Chain_End

fun scan_entries ::
  "adb \<Rightarrow> byte list list \<Rightarrow> 32 word \<Rightarrow> nat \<Rightarrow> nat \<Rightarrow> nat \<Rightarrow> adb_w_bucket_entry list \<Rightarrow> nat \<Rightarrow> w_slot"
where
  "scan_entries db vec h l alignment j [] i = Chain_End"
| "scan_entries db vec h l alignment j (e # es) i =
     (if ent_len e = 0 then Add_At j i
      else if ent_hash e \<noteq> h then scan_entries db vec h l alignment j es (Suc i)
      else if unat (ent_len e) = l
              \<and> iovec_memcmp vec (drop (unat (ent_offs e)) (arena db)) = 0 then
        (if unat (ent_offs e) AND alignment \<noteq> 0 then Add_At j i
         else Reuse (unat (ent_offs e)))
      else scan_entries db vec h l alignment j es (Suc i))"

fun scan_chain ::
  "adb \<Rightarrow> byte list list \<Rightarrow> 32 word \<Rightarrow> nat \<Rightarrow> nat \<Rightarrow> adb_w_bucket list \<Rightarrow> nat \<Rightarrow> w_slot"
where
  "scan_chain db vec h l alignment [] j = Chain_End"
| "scan_chain db vec h l alignment (b # bs) j =
     (case scan_entries db vec h l alignment j b 0 of
        Chain_End \<Rightarrow> scan_chain db vec h l alignment bs (Suc j)
      | r \<Rightarrow> r)"

text \<open>The label \<open>add\<close>: fill the entry, append the bytes, return the entry's offset.\<close>

definition w_data_add ::
  "adb \<Rightarrow> nat \<Rightarrow> adb_w_bucket list \<Rightarrow> nat \<Rightarrow> nat \<Rightarrow> 32 word \<Rightarrow> nat \<Rightarrow> byte list list \<Rightarrow> nat
     \<Rightarrow> fault + nat \<times> adb"
where
  "w_data_add db bucketno chain j i h l vec alignment =
     (case adb_w_raw db vec l alignment of
        Inl e \<Rightarrow> Inl e
      | Inr (p, db') \<Rightarrow>
          (let entry = \<lparr>ent_hash = h, ent_offs = of_nat p, ent_len = of_nat l\<rparr>
           in Inr (unat (ent_offs entry),
                   db'\<lparr>bucket := (bucket db')(bucketno := chain[j := (chain ! j)[i := entry]])\<rparr>)))"

definition adb_w_data :: "adb \<Rightarrow> byte list list \<Rightarrow> nat \<Rightarrow> fault + nat \<times> adb" where
  "adb_w_data db vec alignment =
     (if num_buckets db = 0 then adb_w_raw db vec (iovec_len vec) alignment
      else
        let (h, l) = iovec_hash vec;
            bucketno = unat h mod num_buckets db;
            chain = bucket db bucketno
        in case scan_chain db vec h l alignment chain 0 of
             Reuse p \<Rightarrow> Inr (p, db)
           | Add_At j i \<Rightarrow> w_data_add db bucketno chain j i h l vec alignment
           | Chain_End \<Rightarrow>
               w_data_add db bucketno (chain @ [new_bucket]) (length chain) 0 h l vec alignment)"

text \<open>\<open>adb_w_data1\<close>: one fragment, \<open>None\<close> for a null \<open>ptr\<close>.\<close>

definition adb_w_data1 :: "adb \<Rightarrow> byte list option \<Rightarrow> nat \<Rightarrow> fault + nat \<times> adb" where
  "adb_w_data1 db p alignment =
     (case p of
        None \<Rightarrow> Inr (unat ADB_NULL, db)
      | Some bs \<Rightarrow> adb_w_data db [bs] alignment)"

subsection \<open>Write interface: databases and scalars\<close>

definition adb_w_init_dynamic :: "32 word \<Rightarrow> nat \<Rightarrow> adb" where
  "adb_w_init_dynamic sch n =
     \<lparr>mmap = APK_BLOB_NULL, data = APK_BLOB_NULL, adb = APK_BLOB_NULL,
      hdr = \<lparr>magic = ADB_FORMAT_MAGIC, schema = sch\<rparr>,
      num_buckets = n, bucket = (\<lambda>_. [])\<rparr>"

definition adb_w_init_static :: "nat \<Rightarrow> adb" where
  "adb_w_init_static bufsz =
     \<lparr>mmap = \<lparr>len = bufsz, ptr = None\<rparr>, data = APK_BLOB_NULL, adb = \<lparr>len = 0, ptr = Some []\<rparr>,
      hdr = \<lparr>magic = ADB_FORMAT_MAGIC, schema = 0\<rparr>,
      num_buckets = 0, bucket = (\<lambda>_. [])\<rparr>"

text \<open>
  \<open>adb_w_error\<close> starts with \<open>assert(0)\<close>: in a build with assertions the writer stops
  there.
\<close>

definition adb_w_error :: "adb \<Rightarrow> int \<Rightarrow> fault + adb_val_t \<times> adb" where
  "adb_w_error db rc = Inl AssertFailed"

definition adb_w_root :: "adb \<Rightarrow> adb_val_t \<Rightarrow> fault + adb" where
  "adb_w_root db root_val =
     (case adb_w_raw db [le32_bytes root_val] 4 4 of
        Inl e \<Rightarrow> Inl e
      | Inr (_, db') \<Rightarrow> Inr db')"

text \<open>
  \<open>adb_w_blob\<close>. \<open>n\<close> is the blob's length cut to 32 bits; the second fragment is the
  \<open>n\<close> bytes at \<open>b.ptr\<close>, read by the hash or by \<open>memcpy\<close>.
\<close>

definition adb_w_blob :: "adb \<Rightarrow> apk_blob_t \<Rightarrow> fault + adb_val_t \<times> adb" where
  "adb_w_blob db b =
     (let n = (of_nat (len b) :: 32 word) in
      if n = 0 then Inr (ADB_VAL_NULL, db)
      else case ptr b of
        None \<Rightarrow> Inl NullDeref
      | Some bs \<Rightarrow>
          if length bs < unat n then Inl OutOfBounds
          else
            let (pre, ty) =
                  (if n > 0xffff then (le32_bytes n, ADB_TYPE_BLOB_32)
                   else if n > 0xff then (le16_bytes n, ADB_TYPE_BLOB_16)
                   else ([ucast n], ADB_TYPE_BLOB_8))
            in case adb_w_data db [pre, take (unat n) bs] (length pre) of
                 Inl e \<Rightarrow> Inl e
               | Inr (p, db') \<Rightarrow> Inr (ADB_VAL ty p, db'))"

definition adb_w_int :: "adb \<Rightarrow> 32 word \<Rightarrow> fault + adb_val_t \<times> adb" where
  "adb_w_int db val =
     (if val \<ge> 0x10000000 then
        (case adb_w_data1 db (Some (le32_bytes val)) 4 of
           Inl e \<Rightarrow> Inl e
         | Inr (p, db') \<Rightarrow> Inr (ADB_VAL ADB_TYPE_INT_32 p, db'))
      else Inr (ADB_VAL ADB_TYPE_INT (unat val), db))"

subsection \<open>Block framer (inline functions of adb.h)\<close>

text \<open>
  Modelled from the spec: \<open>struct adb_block\<close>, its accessors and the block constants are
  declared in adb.h, which is not among the sources. Spec 3.4 and 6.1: a block header is
  one little-endian 32-bit word \<open>(type << 30) | size\<close>, \<open>size\<close> counting header and
  payload without the padding; the payload is padded to the container alignment of 32
  bytes; the types are 0 = ADB, 1 = SIG, 2 = DATA.
\<close>

definition ADB_BLOCK_ALIGNMENT :: nat where "ADB_BLOCK_ALIGNMENT = 32"
definition ADB_BLOCK_ADB :: "32 word" where "ADB_BLOCK_ADB = 0"
definition ADB_BLOCK_SIG :: "32 word" where "ADB_BLOCK_SIG = 1"
definition ADB_BLOCK_DATA :: "32 word" where "ADB_BLOCK_DATA = 2"

definition sizeof_adb_block :: nat where "sizeof_adb_block = 4"
definition sizeof_adb_header :: nat where "sizeof_adb_header = 8"

definition adb_block_init :: "32 word \<Rightarrow> nat \<Rightarrow> 32 word" where
  "adb_block_init ty l = push_bit 30 ty + of_nat (sizeof_adb_block + l)"

definition adb_block_type :: "32 word \<Rightarrow> 32 word" where
  "adb_block_type b = drop_bit 30 b"

definition adb_block_rawsize :: "32 word \<Rightarrow> nat" where
  "adb_block_rawsize b = unat (b AND 0x3fffffff)"

definition adb_block_size :: "32 word \<Rightarrow> nat" where
  "adb_block_size b = ROUND_UP (adb_block_rawsize b) ADB_BLOCK_ALIGNMENT"

text \<open>The result type \<open>uint32_t\<close> makes the length of a block below header size wrap.\<close>

definition adb_block_length :: "32 word \<Rightarrow> nat" where
  "adb_block_length b = unat ((b AND 0x3fffffff) - 4)"

definition adb_block_padding :: "32 word \<Rightarrow> nat" where
  "adb_block_padding b = adb_block_size b - adb_block_rawsize b"

text \<open>
  A \<open>struct adb_block *\<close> into the range \<open>b\<close> is the position of the block; the
  enumeration returns such a pointer, null at the end of the range, or \<open>ERR_PTR\<close>.
  \<open>adb_block_first\<close> validates position 0 and \<open>adb_block_next\<close> the position
  \<open>cur + adb_block_size(cur)\<close>.
\<close>

datatype blk_ptr = Blk_Null | Blk_Err int | Blk nat

definition blob_bytes :: "apk_blob_t \<Rightarrow> byte list" where
  "blob_bytes b = (case ptr b of None \<Rightarrow> [] | Some bs \<Rightarrow> bs)"

text \<open>The header word of the block at position \<open>pos\<close>.\<close>

definition block_at :: "apk_blob_t \<Rightarrow> nat \<Rightarrow> fault + 32 word" where
  "block_at b pos =
     (case mem_read (blob_bytes b) pos sizeof_adb_block of
        Inl f \<Rightarrow> Inl f
      | Inr bs \<Rightarrow> Inr (le_word bs))"

definition adb_block_validate :: "nat \<Rightarrow> apk_blob_t \<Rightarrow> fault + blk_ptr" where
  "adb_block_validate pos b =
     (if pos = len b then Inr Blk_Null
      else if sizeof_adb_block > len b - pos then Inr (Blk_Err (- EBADMSG))
      else case block_at b pos of
        Inl f \<Rightarrow> Inl f
      | Inr blk \<Rightarrow>
          if adb_block_rawsize blk < sizeof_adb_block then Inr (Blk_Err (- EBADMSG))
          else if adb_block_size blk > len b - pos then Inr (Blk_Err (- EBADMSG))
          else Inr (Blk pos))"

text \<open>\<open>adb_block_blob\<close>: the payload of the block at \<open>pos\<close>, a non-null pointer.\<close>

definition adb_block_blob :: "apk_blob_t \<Rightarrow> nat \<Rightarrow> 32 word \<Rightarrow> apk_blob_t" where
  "adb_block_blob b pos blk =
     APK_BLOB_PTR_LEN
       (Some (take (adb_block_length blk) (drop (pos + sizeof_adb_block) (blob_bytes b))))
       (adb_block_length blk)"

subsection \<open>Signature verification\<close>

text \<open>
  Modelled from the spec: the trust store, the digest and the asymmetric primitive
  (\<open>apk_digest_calc\<close>, \<open>apk_verify_start\<close>, \<open>apk_verify\<close>) are external collaborators
  (spec 1, 4.5). A trusted key is its 16-byte id and the predicate "digest and verification
  of this signature block over this header and arena all return 0". The signature record
  is \<open>{sign_ver:u8, hash_alg:u8, reserved:u16, key_id:u8[16], sig}\<close> (spec 6.2).
\<close>

record apk_trust_key =
  key_id :: "byte list"
  key_accepts :: "adb_header \<Rightarrow> byte list \<Rightarrow> byte list \<Rightarrow> bool"

record apk_trust =
  trusted_key_list :: "apk_trust_key list"

definition sizeof_adb_sign_hdr :: nat where "sizeof_adb_sign_hdr = 4"
definition EKEYREJECTED :: int where "EKEYREJECTED = 129"

text \<open>The loop over the trusted keys: the first key that verifies ends it with 0.\<close>

fun verify_keys :: "apk_trust_key list \<Rightarrow> adb \<Rightarrow> byte list \<Rightarrow> int" where
  "verify_keys [] db sig = - EKEYREJECTED"
| "verify_keys (k # ks) db sig =
     (if take 16 (drop sizeof_adb_sign_hdr sig) \<noteq> key_id k then verify_keys ks db sig
      else if \<not> key_accepts k (hdr db) (arena db) sig then verify_keys ks db sig
      else 0)"

definition adb_trust_verify_signature :: "apk_trust \<Rightarrow> adb \<Rightarrow> apk_blob_t \<Rightarrow> int" where
  "adb_trust_verify_signature trust db sigb =
     (if APK_BLOB_IS_NULL (adb db) then - ENOMSG
      else if len sigb < sizeof_adb_sign_hdr then - EBADMSG
      else if take 1 (blob_bytes sigb) \<noteq> [0] then - ENOSYS
      else verify_keys (trusted_key_list trust) db (blob_bytes sigb))"

subsection \<open>Parsing a mapped range\<close>

text \<open>
  One pass of the \<open>switch\<close> in \<open>__adb_m_parse\<close> for the block at \<open>pos\<close> with header
  word \<open>blk\<close>. Every \<open>break\<close> of the source leaves the \<open>switch\<close>, none the loop.
\<close>

definition m_parse_block ::
  "apk_trust option \<Rightarrow> adb \<Rightarrow> bool \<Rightarrow> nat \<Rightarrow> 32 word \<Rightarrow> adb \<times> bool"
where
  "m_parse_block t db trusted pos blk =
     (let b = adb_block_blob (data db) pos blk in
      if adb_block_type blk = ADB_BLOCK_ADB then
        (if \<not> APK_BLOB_IS_NULL (adb db) then (db, trusted)
         else (db\<lparr>adb := b\<rparr>, trusted))
      else if adb_block_type blk = ADB_BLOCK_SIG then
        (if APK_BLOB_IS_NULL (adb db) then (db, trusted)
         else if \<not> trusted \<and> (case t of None \<Rightarrow> False
                                | Some tr \<Rightarrow> adb_trust_verify_signature tr db b = 0)
         then (db, True)
         else (db, trusted))
      else (db, trusted))"

text \<open>
  \<open>adb_foreach_block\<close>: the loop runs while the pointer is neither null nor an error and
  hands back the pointer it stopped at. A validated block has a positive padded size
  within the range, so the position grows and the loop ends.
\<close>

function m_parse_loop ::
  "apk_trust option \<Rightarrow> apk_blob_t \<Rightarrow> adb \<Rightarrow> bool \<Rightarrow> nat \<Rightarrow> fault + blk_ptr \<times> adb \<times> bool"
where
  "m_parse_loop t b db trusted pos =
     (case adb_block_validate pos b of
        Inl f \<Rightarrow> Inl f
      | Inr (Blk p) \<Rightarrow>
          (case block_at b p of
             Inl f \<Rightarrow> Inl f
           | Inr blk \<Rightarrow>
               (case m_parse_block t db trusted p blk of
                  (db', trusted') \<Rightarrow>
                    m_parse_loop t b db' trusted' (p + adb_block_size blk)))
      | Inr r \<Rightarrow> Inr (r, db, trusted))"
  by pat_completeness auto
termination
  apply (relation "measure (\<lambda>(t, b, db, trusted, pos). len b - pos)")
   apply simp
  apply (clarsimp simp: adb_block_validate_def sizeof_adb_block_def adb_block_size_def
           ROUND_UP_def ADB_BLOCK_ALIGNMENT_def split: if_splits sum.splits)
  subgoal for t b db trusted p x y blk
    apply (subgoal_tac "0 < (31 + adb_block_rawsize blk) div 32")
     apply arith
    apply (simp add: div_greater_zero_iff)
    done
  done

declare m_parse_loop.simps [simp del]

definition adb_m_parse :: "adb \<Rightarrow> apk_trust option \<Rightarrow> fault + int \<times> adb" where
  "adb_m_parse db t =
     (case m_parse_loop t (data db) db (t = None) 0 of
        Inl f \<Rightarrow> Inl f
      | Inr (blk, db', trusted) \<Rightarrow>
          (let r = (case blk of
                      Blk_Err e \<Rightarrow> e
                    | _ \<Rightarrow> if \<not> trusted then - ENOKEY
                           else if ptr (adb db') \<noteq> None then 0
                           else - EBADMSG)
           in if r \<noteq> 0 then Inr (r, db'\<lparr>adb := APK_BLOB_NULL\<rparr>) else Inr (r, db')))"

definition adb_zero :: adb where
  "adb_zero = \<lparr>mmap = APK_BLOB_NULL, data = APK_BLOB_NULL, adb = APK_BLOB_NULL,
               hdr = \<lparr>magic = 0, schema = 0\<rparr>, num_buckets = 0, bucket = (\<lambda>_. [])\<rparr>"

definition adb_m_blob :: "apk_blob_t \<Rightarrow> apk_trust option \<Rightarrow> fault + int \<times> adb" where
  "adb_m_blob blob t = adb_m_parse (adb_zero\<lparr>data := blob\<rparr>) t"

text \<open>
  \<open>adb_m_map\<close>. The file descriptor is the content of the file; \<open>fstat\<close> and \<open>mmap\<close> are
  taken to succeed. On the error path \<open>adb_free\<close> unmaps the file.
\<close>

definition adb_m_map :: "byte list \<Rightarrow> 32 word \<Rightarrow> apk_trust option \<Rightarrow> fault + int \<times> adb" where
  "adb_m_map file expected_schema t =
     (if length file < sizeof_adb_header then Inr (- EIO, adb_zero)
      else
        let db = adb_zero\<lparr>mmap := \<lparr>len = length file, ptr = Some file\<rparr>\<rparr>;
            h = \<lparr>magic = le_word (take 4 file), schema = le_word (take 4 (drop 4 file))\<rparr>
        in if magic h \<noteq> ADB_FORMAT_MAGIC then Inr (- EBADMSG, db)
           else if expected_schema \<noteq> 0 \<and> expected_schema \<noteq> schema h then Inr (- EBADMSG, db)
           else adb_m_parse
                  (db\<lparr>hdr := h,
                      data := APK_BLOB_PTR_LEN (Some (drop sizeof_adb_header file))
                                (length file - sizeof_adb_header)\<rparr>) t)"


subsection \<open>Parsing a stream\<close>

text \<open>
  The input stream of \<open>adb_m_stream\<close> is modelled by the bytes it still has to deliver
  and the size of its buffer: a source without I/O errors that reports end of file after
  its last byte. \<open>apk_istream_read\<close> then returns the number of bytes it read, which is
  less than asked for only at the end of the stream, and 0 at the end.
\<close>

record apk_istream =
  is_bytes :: "byte list"
  is_buf_size :: nat

definition apk_istream_read :: "apk_istream \<Rightarrow> nat \<Rightarrow> int \<times> byte list \<times> apk_istream" where
  "apk_istream_read s n =
     (let k = min n (length (is_bytes s))
      in (int k, take k (is_bytes s), s\<lparr>is_bytes := drop k (is_bytes s)\<rparr>))"

text \<open>
  \<open>apk_istream_get\<close> hands out \<open>n\<close> contiguous bytes of the buffer, or fails with
  \<open>ENOBUFS\<close> when the buffer is full before it holds them and with \<open>ENOMSG\<close> when the
  stream ends first.
\<close>

definition apk_istream_get :: "apk_istream \<Rightarrow> nat \<Rightarrow> (int + byte list) \<times> apk_istream" where
  "apk_istream_get s n =
     (if n \<le> length (is_bytes s) \<and> n \<le> is_buf_size s
      then (Inr (take n (is_bytes s)), s\<lparr>is_bytes := drop n (is_bytes s)\<rparr>)
      else if is_buf_size s \<le> length (is_bytes s) then (Inl (- ENOBUFS), s)
      else (Inl (- ENOMSG), s))"

text \<open>The labels \<open>bad_msg\<close> and \<open>err\<close>: a non-negative \<open>r\<close> becomes \<open>-EBADMSG\<close>.\<close>

definition stream_err :: "int \<Rightarrow> int" where
  "stream_err r = (if r \<ge> 0 then - EBADMSG else r)"

text \<open>
  One round of the \<open>do ... while (1)\<close> loop of \<open>adb_m_stream\<close>: either the function
  returns (left) or the loop goes on with the database, the \<open>trusted\<close> flag, the block
  number and the stream (right). \<open>sz\<close> is computed in \<open>size_t\<close>. The data callback gets
  the database, the block length and the segment of the stream that holds the padded
  payload; what it leaves unread is discarded, so the stream advances by the whole segment.
\<close>

definition m_stream_step ::
  "apk_trust option \<Rightarrow> (adb \<Rightarrow> nat \<Rightarrow> byte list \<Rightarrow> int) \<Rightarrow> adb \<Rightarrow> bool \<Rightarrow> nat \<Rightarrow> apk_istream
     \<Rightarrow> int \<times> adb + adb \<times> bool \<times> nat \<times> apk_istream"
where
  "m_stream_step t datacb db trusted block_no s =
     (case apk_istream_read s sizeof_adb_block of
        (r, hb, s1) \<Rightarrow>
          if r = 0 then
            (if \<not> trusted then Inl (- ENOKEY, db)
             else if ptr (adb db) = None then Inl (- ENOMSG, db)
             else Inl (0, db))
          else if r < 0 \<or> r \<noteq> int sizeof_adb_block then Inl (stream_err r, db)
          else
            let blk = le_word hb;
                sz = (adb_block_size blk + 2 ^ 64 - sizeof_adb_block) mod 2 ^ 64
            in
            if (block_no = 0) \<noteq> (adb_block_type blk = ADB_BLOCK_ADB) then Inl (- EBADMSG, db)
            else if adb_block_type blk = ADB_BLOCK_ADB then
              (if \<not> APK_BLOB_IS_NULL (adb db) then Inl (- EBADMSG, db)
               else case apk_istream_read s1 sz of
                 (r, bs, s2) \<Rightarrow>
                   let db' = db\<lparr>adb := \<lparr>len = adb_block_length blk, ptr = Some bs\<rparr>\<rparr>
                   in if r \<noteq> int sz then Inl (stream_err r, db')
                      else Inr (db', trusted, Suc block_no, s2))
            else if adb_block_type blk = ADB_BLOCK_SIG then
              (if APK_BLOB_IS_NULL (adb db) then Inl (- EBADMSG, db)
               else case apk_istream_get s1 sz of
                 (Inl e, s2) \<Rightarrow> Inl (stream_err e, db)
               | (Inr sig, s2) \<Rightarrow>
                   if \<not> trusted
                      \<and> (case t of
                            None \<Rightarrow> False
                          | Some tr \<Rightarrow>
                              adb_trust_verify_signature tr db
                                (APK_BLOB_PTR_LEN (Some (take (adb_block_length blk) sig))
                                   (adb_block_length blk)) = 0)
                   then Inr (db, True, Suc block_no, s2)
                   else Inr (db, trusted, Suc block_no, s2))
            else if adb_block_type blk = ADB_BLOCK_DATA then
              (if APK_BLOB_IS_NULL (adb db) then Inl (- EBADMSG, db)
               else if \<not> trusted then Inl (stream_err (- ENOKEY), db)
               else case apk_istream_read s1 sz of
                 (_, seg, s2) \<Rightarrow>
                   let r = datacb db (adb_block_length blk) seg
                   in if r < 0 then Inl (stream_err r, db)
                      else Inr (db, trusted, Suc block_no, s2))
            else Inl (- EBADMSG, db))"

text \<open>
  The loop. A round that goes on has read the four bytes of a block header, so the loop
  ends with the stream.
\<close>

function m_stream_loop ::
  "apk_trust option \<Rightarrow> (adb \<Rightarrow> nat \<Rightarrow> byte list \<Rightarrow> int) \<Rightarrow> adb \<Rightarrow> bool \<Rightarrow> nat \<Rightarrow> apk_istream
     \<Rightarrow> int \<times> adb"
where
  "m_stream_loop t datacb db trusted block_no s =
     (case m_stream_step t datacb db trusted block_no s of
        Inl res \<Rightarrow> res
      | Inr (db', trusted', block_no', s') \<Rightarrow> m_stream_loop t datacb db' trusted' block_no' s')"
  by pat_completeness auto
termination
  apply (relation "measure (\<lambda>(t, datacb, db, trusted, block_no, s). length (is_bytes s))")
   apply simp
  apply (simp add: m_stream_step_def apk_istream_read_def apk_istream_get_def
           sizeof_adb_block_def Let_def split: if_splits prod.splits sum.splits)
   apply auto
  done

declare m_stream_loop.simps [simp del]

text \<open>
  \<open>adb_m_stream\<close>. \<open>is\<close> is an \<open>ERR_PTR\<close> or a stream; the database is the caller's,
  as it is on entry. \<open>expected_schema\<close> is not looked at.
\<close>

definition adb_m_stream ::
  "adb \<Rightarrow> int + apk_istream \<Rightarrow> 32 word \<Rightarrow> apk_trust option \<Rightarrow> (adb \<Rightarrow> nat \<Rightarrow> byte list \<Rightarrow> int)
     \<Rightarrow> int \<times> adb"
where
  "adb_m_stream db is expected_schema t datacb =
     (case is of
        Inl e \<Rightarrow> (e, db)
      | Inr s \<Rightarrow>
          (case apk_istream_read s sizeof_adb_header of
             (r, hb, s1) \<Rightarrow>
               let db1 = db\<lparr>hdr := \<lparr>magic = le_word (take 4 hb),
                                     schema = le_word (take 4 (drop 4 hb))\<rparr>\<rparr>
               in if r \<noteq> int sizeof_adb_header then (stream_err r, db1)
                  else if magic (hdr db1) \<noteq> ADB_FORMAT_MAGIC then (- EBADMSG, db1)
                  else m_stream_loop t datacb db1 (t = None) 0 s1))"


subsection \<open>Schemas and object views\<close>

text \<open>
  Modelled from the spec: the schema structures and \<open>struct adb_obj\<close> are declared in
  adb.h, which is not among the sources. Spec 3.3 and 9: a field kind is a discriminator
  byte from which the code recovers the enclosing descriptor; the descriptor is a scalar
  schema (kinds \<open>INT\<close>, \<open>BLOB\<close>) with a \<open>compare(db, val, db, val)\<close>, an object schema
  (kinds \<open>OBJECT\<close>, \<open>ARRAY\<close>) with its field count, an optional \<open>compare(obj, obj)\<close> and
  its fields, or a nested-container schema (kind \<open>ADB\<close>) pointing to an object schema.
  A comparator sees an object as database, slot count and slot vector. The callbacks
  \<open>pre_commit\<close>, \<open>get_default_int\<close> and \<open>fromstring\<close> are left out: the schemas of
  this model have none.
\<close>

text \<open>
  The \<open>obj\<close> pointer of a \<open>struct adb_obj\<close>: null, a pointer into the arena of the
  object's database (read side), or the caller's slot array (write side).
\<close>

datatype obj_ptr = Obj_Null | Obj_Arena nat | Obj_Vec "adb_val_t list"

type_synonym obj_view = "adb \<times> 32 word \<times> obj_ptr"

datatype adb_schema =
    ADB_KIND_INT "adb \<Rightarrow> adb_val_t \<Rightarrow> adb \<Rightarrow> adb_val_t \<Rightarrow> int"
  | ADB_KIND_BLOB "adb \<Rightarrow> adb_val_t \<Rightarrow> adb \<Rightarrow> adb_val_t \<Rightarrow> int"
  | ADB_KIND_OBJECT nat "(obj_view \<Rightarrow> obj_view \<Rightarrow> int) option" "adb_schema list"
  | ADB_KIND_ARRAY nat "(obj_view \<Rightarrow> obj_view \<Rightarrow> int) option" "adb_schema list"
  | ADB_KIND_ADB adb_schema

record adb_obj =
  o_schema :: "adb_schema option"
  o_db :: adb
  o_num :: "32 word"
  o_obj :: obj_ptr

fun num_fields :: "adb_schema \<Rightarrow> nat" where
  "num_fields (ADB_KIND_OBJECT n c fs) = n"
| "num_fields (ADB_KIND_ARRAY n c fs) = n"
| "num_fields _ = 0"

fun schema_fields :: "adb_schema \<Rightarrow> adb_schema list" where
  "schema_fields (ADB_KIND_OBJECT n c fs) = fs"
| "schema_fields (ADB_KIND_ARRAY n c fs) = fs"
| "schema_fields _ = []"

fun schema_compare :: "adb_schema \<Rightarrow> (obj_view \<Rightarrow> obj_view \<Rightarrow> int) option" where
  "schema_compare (ADB_KIND_OBJECT n c fs) = c"
| "schema_compare (ADB_KIND_ARRAY n c fs) = c"
| "schema_compare _ = None"

definition ADBI_NUM_ENTRIES :: nat where "ADBI_NUM_ENTRIES = 0"
definition ADBI_FIRST :: nat where "ADBI_FIRST = 1"

text \<open>\<open>o->obj[i]\<close>.\<close>

definition obj_at :: "adb_obj \<Rightarrow> nat \<Rightarrow> fault + adb_val_t" where
  "obj_at ob i =
     (case o_obj ob of
        Obj_Null \<Rightarrow> Inl NullDeref
      | Obj_Arena p \<Rightarrow>
          (case mem_read (arena (o_db ob)) (p + sizeof_adb_val_t * i) sizeof_adb_val_t of
             Inl f \<Rightarrow> Inl f
           | Inr bs \<Rightarrow> Inr (le_word bs))
      | Obj_Vec vs \<Rightarrow> if i < length vs then Inr (vs ! i) else Inl OutOfBounds)"

definition adb_ro_num :: "adb_obj \<Rightarrow> 32 word" where
  "adb_ro_num ob = o_num ob"

definition adb_ra_num :: "adb_obj \<Rightarrow> 32 word" where
  "adb_ra_num ob = (if o_num ob \<noteq> 0 then o_num ob else 1) - 1"

text \<open>
  \<open>adb_r_obj\<close>. The first \<open>adb_r_deref\<close> asks for \<open>sizeof(adb_val_t[ADBI_NUM_ENTRIES])\<close>
  bytes, the size of an array of no elements; the length slot is read behind it.
\<close>

definition adb_r_obj :: "adb \<Rightarrow> adb_val_t \<Rightarrow> adb_schema option \<Rightarrow> fault + adb_obj" where
  "adb_r_obj db v sch =
     (let err = \<lparr>o_schema = sch, o_db = db, o_num = 1, o_obj = Obj_Null\<rparr> in
      if ADB_VAL_TYPE v \<noteq> ADB_TYPE_ARRAY \<and> ADB_VAL_TYPE v \<noteq> ADB_TYPE_OBJECT then Inr err
      else case adb_r_deref db v 0 (sizeof_adb_val_t * ADBI_NUM_ENTRIES) of
        None \<Rightarrow> Inr err
      | Some p \<Rightarrow>
          (case mem_read (arena db) (p + sizeof_adb_val_t * ADBI_NUM_ENTRIES) sizeof_adb_val_t of
             Inl f \<Rightarrow> Inl f
           | Inr bs \<Rightarrow>
               (let n = le_word bs in
                case adb_r_deref db v 0 (sizeof_adb_val_t * unat n) of
                  None \<Rightarrow> Inr err
                | Some q \<Rightarrow> Inr \<lparr>o_schema = sch, o_db = db, o_num = n, o_obj = Obj_Arena q\<rparr>)))"

definition adb_r_rootobj :: "adb \<Rightarrow> adb_schema option \<Rightarrow> fault + adb_obj" where
  "adb_r_rootobj db sch =
     (case adb_r_root db of Inl f \<Rightarrow> Inl f | Inr v \<Rightarrow> adb_r_obj db v sch)"

definition adb_ro_val :: "adb_obj \<Rightarrow> nat \<Rightarrow> fault + adb_val_t" where
  "adb_ro_val ob i = (if i \<ge> unat (o_num ob) then Inr ADB_NULL else obj_at ob i)"

text \<open>\<open>adb_ro_int\<close> for a schema without \<open>get_default_int\<close>.\<close>

definition adb_ro_int :: "adb_obj \<Rightarrow> nat \<Rightarrow> fault + 32 word" where
  "adb_ro_int ob i =
     (case adb_ro_val ob i of Inl f \<Rightarrow> Inl f | Inr v \<Rightarrow> adb_r_int (o_db ob) v)"

subsection \<open>Sorting\<close>

text \<open>
  The comparators \<open>wacmp\<close> and \<open>wadbcmp\<close>, with the three file-scope variables
  \<open>__db1\<close>, \<open>__db2\<close> and \<open>__schema\<close> as arguments. A schema without \<open>compare\<close> has a
  null function pointer there.
\<close>

definition obj_view_of :: "adb_obj \<Rightarrow> obj_view" where
  "obj_view_of ob = (o_db ob, o_num ob, o_obj ob)"

definition call_compare :: "adb_schema option \<Rightarrow> adb_obj \<Rightarrow> adb_obj \<Rightarrow> fault + int" where
  "call_compare sch o1 o2 =
     (case sch of
        None \<Rightarrow> Inl NullDeref
      | Some s \<Rightarrow>
          (case schema_compare s of
             None \<Rightarrow> Inl NullDeref
           | Some c \<Rightarrow> Inr (c (obj_view_of o1) (obj_view_of o2))))"

definition wacmp :: "adb \<Rightarrow> adb \<Rightarrow> adb_schema option \<Rightarrow> adb_val_t \<Rightarrow> adb_val_t \<Rightarrow> fault + int" where
  "wacmp db1 db2 sch p1 p2 =
     (case adb_r_obj db1 p1 sch of
        Inl f \<Rightarrow> Inl f
      | Inr o1 \<Rightarrow>
          (case adb_r_obj db2 p2 sch of
             Inl f \<Rightarrow> Inl f
           | Inr o2 \<Rightarrow> call_compare (o_schema o1) o1 o2))"

definition m_blob_db :: "adb \<Rightarrow> adb_val_t \<Rightarrow> fault + adb" where
  "m_blob_db db p =
     (case adb_r_blob db p of
        Inl f \<Rightarrow> Inl f
      | Inr b \<Rightarrow> (case adb_m_blob b None of Inl f \<Rightarrow> Inl f | Inr (r, a) \<Rightarrow> Inr a))"

definition wadbcmp :: "adb \<Rightarrow> adb \<Rightarrow> adb_schema option \<Rightarrow> adb_val_t \<Rightarrow> adb_val_t \<Rightarrow> fault + int" where
  "wadbcmp db1 db2 sch p1 p2 =
     (case m_blob_db db1 p1 of
        Inl f \<Rightarrow> Inl f
      | Inr a1 \<Rightarrow>
          (case m_blob_db db2 p2 of
             Inl f \<Rightarrow> Inl f
           | Inr a2 \<Rightarrow>
               (case adb_r_rootobj a1 sch of
                  Inl f \<Rightarrow> Inl f
                | Inr o1 \<Rightarrow>
                    (case adb_r_rootobj a2 sch of
                       Inl f \<Rightarrow> Inl f
                     | Inr o2 \<Rightarrow> call_compare sch o1 o2))))"

text \<open>
  \<open>qsort\<close> is the C library's: it leaves the elements in an order in which the
  comparator finds no later element smaller than an earlier one. The model is insertion
  sort; a comparator that does not return ends the sort.
\<close>

fun qsort_insert :: "('a \<Rightarrow> 'a \<Rightarrow> fault + int) \<Rightarrow> 'a \<Rightarrow> 'a list \<Rightarrow> fault + 'a list" where
  "qsort_insert c x [] = Inr [x]"
| "qsort_insert c x (y # ys) =
     (case c x y of
        Inl f \<Rightarrow> Inl f
      | Inr r \<Rightarrow>
          if r \<le> 0 then Inr (x # y # ys)
          else (case qsort_insert c x ys of Inl f \<Rightarrow> Inl f | Inr zs \<Rightarrow> Inr (y # zs)))"

fun qsort :: "('a \<Rightarrow> 'a \<Rightarrow> fault + int) \<Rightarrow> 'a list \<Rightarrow> fault + 'a list" where
  "qsort c [] = Inr []"
| "qsort c (x # xs) =
     (case qsort c xs of Inl f \<Rightarrow> Inl f | Inr ys \<Rightarrow> qsort_insert c x ys)"

text \<open>\<open>qsort(&arr->obj[ADBI_FIRST], adb_ra_num(arr), ...)\<close> on the caller's slot array.\<close>

definition sort_slots ::
  "(adb_val_t \<Rightarrow> adb_val_t \<Rightarrow> fault + int) \<Rightarrow> adb_obj \<Rightarrow> fault + adb_obj"
where
  "sort_slots c arr =
     (case o_obj arr of
        Obj_Vec vs \<Rightarrow>
          (let n = unat (adb_ra_num arr) in
           if ADBI_FIRST + n > length vs then Inl OutOfBounds
           else case qsort c (take n (drop ADBI_FIRST vs)) of
             Inl f \<Rightarrow> Inl f
           | Inr ss \<Rightarrow>
               Inr (arr\<lparr>o_obj := Obj_Vec (take ADBI_FIRST vs @ ss @ drop (ADBI_FIRST + n) vs)\<rparr>))
      | _ \<Rightarrow> if adb_ra_num arr = 0 then Inr arr else Inl NullDeref)"

text \<open>
  \<open>adb_wa_sort\<close>. The \<open>switch\<close> has a case for element kind \<open>OBJECT\<close> and one for
  \<open>ADB\<close>; the default is \<open>assert(1)\<close>, which never fails, so every other element kind
  leaves the array as it is.
\<close>

definition adb_wa_sort :: "adb_obj \<Rightarrow> fault + adb_obj" where
  "adb_wa_sort arr =
     (case o_schema arr of
        Some (ADB_KIND_ARRAY n c fs) \<Rightarrow>
          (case fs of
             [] \<Rightarrow> Inl OutOfBounds
           | ADB_KIND_OBJECT m c' fs' # _ \<Rightarrow>
               sort_slots (wacmp (o_db arr) (o_db arr) (Some (ADB_KIND_OBJECT m c' fs'))) arr
           | ADB_KIND_ADB s # _ \<Rightarrow>
               sort_slots (wadbcmp (o_db arr) (o_db arr) (Some s)) arr
           | _ \<Rightarrow> Inr arr)
      | Some _ \<Rightarrow> Inl AssertFailed
      | None \<Rightarrow> Inl NullDeref)"

text \<open>
  The loop of \<open>adb_wa_sort_unique\<close>: \<open>i\<close> runs from 2 to \<open>num\<close>, \<open>j\<close> is the next slot
  to fill.
\<close>

function unique_loop :: "adb_val_t list \<Rightarrow> nat \<Rightarrow> nat \<Rightarrow> nat \<Rightarrow> adb_val_t list \<times> nat" where
  "unique_loop vs num i j =
     (if i \<le> num then
        (if vs ! i = vs ! (i - 1) then unique_loop vs num (Suc i) j
         else unique_loop (vs[j := vs ! i]) num (Suc i) (Suc j))
      else (vs, j))"
  by pat_completeness auto
termination
  by (relation "measure (\<lambda>(vs, num, i, j). Suc num - i)") auto

declare unique_loop.simps [simp del]

definition adb_wa_sort_unique :: "adb_obj \<Rightarrow> fault + adb_obj" where
  "adb_wa_sort_unique arr0 =
     (case adb_wa_sort arr0 of
        Inl f \<Rightarrow> Inl f
      | Inr arr \<Rightarrow>
          (let num = unat (adb_ra_num arr) in
           if num \<ge> 2 then
             (case o_obj arr of
                Obj_Vec vs \<Rightarrow>
                  if num \<ge> length vs then Inl OutOfBounds
                  else (case unique_loop vs num 2 2 of
                          (vs', j) \<Rightarrow> Inr (arr\<lparr>o_obj := Obj_Vec vs', o_num := of_nat j\<rparr>))
              | _ \<Rightarrow> Inl NullDeref)
           else Inr arr))"

subsection \<open>Building objects and arrays\<close>

text \<open>
  A builder carries the database it writes to: \<open>o_db\<close> of the returned builder is the
  database after the call.
\<close>

definition adb_wo_init :: "adb_schema \<Rightarrow> adb \<Rightarrow> adb_obj" where
  "adb_wo_init sch db =
     \<lparr>o_schema = Some sch, o_db = db, o_num = 1,
      o_obj = Obj_Vec ((replicate (num_fields sch) 0)[ADBI_NUM_ENTRIES := of_nat (num_fields sch)])\<rparr>"

definition adb_wo_reset :: "adb_obj \<Rightarrow> fault + adb_obj" where
  "adb_wo_reset ob =
     (case o_obj ob of
        Obj_Vec vs \<Rightarrow>
          if vs = [] \<or> unat (o_num ob) > length vs then Inl OutOfBounds
          else Inr (ob\<lparr>o_obj := Obj_Vec ((replicate (unat (o_num ob)) 0 @ drop (unat (o_num ob)) vs)
                                            [ADBI_NUM_ENTRIES := vs ! ADBI_NUM_ENTRIES]),
                       o_num := 1\<rparr>)
      | _ \<Rightarrow> Inl NullDeref)"

text \<open>The loop of \<open>__adb_w_obj\<close> that drops the trailing \<open>ADB_NULL\<close> slots.\<close>

function trim_nulls :: "adb_val_t list \<Rightarrow> nat \<Rightarrow> nat" where
  "trim_nulls vs n = (if n > 1 \<and> vs ! (n - 1) = ADB_NULL then trim_nulls vs (n - 1) else n)"
  by pat_completeness auto
termination
  by (relation "measure (\<lambda>(vs, n). n)") auto

declare trim_nulls.simps [simp del]

definition adb_w_obj_type :: "adb_obj \<Rightarrow> adb_val_t \<Rightarrow> fault + adb_val_t \<times> adb_obj" where
  "adb_w_obj_type ob ty =
     (case o_obj ob of
        Obj_Vec vs \<Rightarrow>
          if vs = [] \<or> unat (o_num ob) > length vs then Inl OutOfBounds
          else
            let n = trim_nulls vs (unat (o_num ob)) in
            if n > 1 then
              (let vs' = vs[ADBI_NUM_ENTRIES := of_nat n] in
               case adb_w_data1 (o_db ob) (Some (concat (map le32_bytes (take n vs')))) sizeof_adb_val_t of
                 Inl f \<Rightarrow> Inl f
               | Inr (p, db') \<Rightarrow>
                   (case adb_wo_reset (ob\<lparr>o_db := db', o_obj := Obj_Vec vs'\<rparr>) of
                      Inl f \<Rightarrow> Inl f
                    | Inr ob' \<Rightarrow>
                        Inr (ADB_VAL ty p,
                             ob'\<lparr>o_obj := (case o_obj ob' of
                                             Obj_Vec ws \<Rightarrow> Obj_Vec (ws[ADBI_NUM_ENTRIES := vs ! ADBI_NUM_ENTRIES])
                                           | x \<Rightarrow> x)\<rparr>)))
            else
              (case adb_wo_reset ob of
                 Inl f \<Rightarrow> Inl f
               | Inr ob' \<Rightarrow> Inr (ADB_NULL, ob'))
      | _ \<Rightarrow> Inl NullDeref)"

definition adb_w_obj :: "adb_obj \<Rightarrow> fault + adb_val_t \<times> adb_obj" where
  "adb_w_obj ob = adb_w_obj_type ob ADB_TYPE_OBJECT"

definition adb_w_arr :: "adb_obj \<Rightarrow> fault + adb_val_t \<times> adb_obj" where
  "adb_w_arr ob = adb_w_obj_type ob ADB_TYPE_ARRAY"

definition adb_wa_append :: "adb_obj \<Rightarrow> adb_val_t \<Rightarrow> fault + adb_val_t \<times> adb_obj" where
  "adb_wa_append ob v =
     (case o_schema ob of
        Some (ADB_KIND_ARRAY n c fs) \<Rightarrow>
          (case o_obj ob of
             Obj_Vec vs \<Rightarrow>
               if vs = [] then Inl OutOfBounds
               else if o_num ob \<ge> vs ! ADBI_NUM_ENTRIES then
                 (case adb_w_error (o_db ob) E2BIG of
                    Inl f \<Rightarrow> Inl f
                  | Inr (e, db') \<Rightarrow> Inr (e, ob\<lparr>o_db := db'\<rparr>))
               else if ADB_IS_ERROR v then
                 (case adb_w_error (o_db ob) (int (unat (ADB_VAL_VALUE v))) of
                    Inl f \<Rightarrow> Inl f
                  | Inr (e, db') \<Rightarrow> Inr (e, ob\<lparr>o_db := db'\<rparr>))
               else if v \<noteq> ADB_VAL_NULL then
                 (if unat (o_num ob) \<ge> length vs then Inl OutOfBounds
                  else Inr (v, ob\<lparr>o_obj := Obj_Vec (vs[unat (o_num ob) := v]),
                                  o_num := o_num ob + 1\<rparr>))
               else Inr (v, ob)
           | _ \<Rightarrow> Inl NullDeref)
      | Some _ \<Rightarrow> Inl AssertFailed
      | None \<Rightarrow> Inl NullDeref)"

subsection \<open>Copying between databases\<close>

text \<open>
  \<open>adb_w_copy\<close> compares its two database pointers, so the databases live in a store
  and the function gets their addresses. The copy of an object or array calls itself for
  every slot, to a depth that the source arena decides; the model counts that depth down
  and is \<open>None\<close> where the count ends before the recursion does.
\<close>

type_synonym store = "nat \<Rightarrow> adb"

text \<open>The label \<open>copy\<close>.\<close>

definition w_copy_raw ::
  "store \<Rightarrow> nat \<Rightarrow> nat \<Rightarrow> adb_val_t \<Rightarrow> nat \<Rightarrow> nat \<Rightarrow> fault + adb_val_t \<times> store"
where
  "w_copy_raw st p q v sz align =
     (case (case adb_r_deref (st q) v 0 sz of
              None \<Rightarrow> Inr None
            | Some a \<Rightarrow> (case mem_read (arena (st q)) a sz of
                           Inl f \<Rightarrow> Inl f
                         | Inr bs \<Rightarrow> Inr (Some bs))) of
        Inl f \<Rightarrow> Inl f
      | Inr src \<Rightarrow>
          (case adb_w_data1 (st p) src align of
             Inl f \<Rightarrow> Inl f
           | Inr (a, db') \<Rightarrow> Inr (ADB_VAL (ADB_VAL_TYPE v) a, st(p := db'))))"

text \<open>The \<open>for\<close> loop over the slots \<open>ADBI_FIRST .. sz - 1\<close>; \<open>copy\<close> is the recursive call.\<close>

fun w_copy_slots ::
  "(store \<Rightarrow> nat \<Rightarrow> nat \<Rightarrow> adb_val_t \<Rightarrow> (fault + adb_val_t \<times> store) option)
     \<Rightarrow> store \<Rightarrow> nat \<Rightarrow> nat \<Rightarrow> adb_obj \<Rightarrow> nat list \<Rightarrow> (fault + adb_val_t list \<times> store) option"
where
  "w_copy_slots copy st p q ob [] = Some (Inr ([], st))"
| "w_copy_slots copy st p q ob (i # is) =
     (case adb_ro_val ob i of
        Inl f \<Rightarrow> Some (Inl f)
      | Inr sv \<Rightarrow>
          (case copy st p q sv of
             None \<Rightarrow> None
           | Some (Inl f) \<Rightarrow> Some (Inl f)
           | Some (Inr (c, st1)) \<Rightarrow>
               (case w_copy_slots copy st1 p q ob is of
                  None \<Rightarrow> None
                | Some (Inl f) \<Rightarrow> Some (Inl f)
                | Some (Inr (cs, st2)) \<Rightarrow> Some (Inr (c # cs, st2)))))"

definition w_copy_body ::
  "(store \<Rightarrow> nat \<Rightarrow> nat \<Rightarrow> adb_val_t \<Rightarrow> (fault + adb_val_t \<times> store) option)
     \<Rightarrow> store \<Rightarrow> nat \<Rightarrow> nat \<Rightarrow> adb_val_t \<Rightarrow> (fault + adb_val_t \<times> store) option"
where
  "w_copy_body copy st p q v =
     (if p = q then Some (Inr (v, st))
      else if ADB_VAL_TYPE v = ADB_TYPE_SPECIAL \<or> ADB_VAL_TYPE v = ADB_TYPE_INT then
        Some (Inr (v, st))
      else if ADB_VAL_TYPE v = ADB_TYPE_INT_32 then Some (w_copy_raw st p q v 4 4)
      else if ADB_VAL_TYPE v = ADB_TYPE_BLOB_8 then
        (case deref_bytes (st q) (adb_r_deref (st q) v 0 1) 1 of
           Inl f \<Rightarrow> Some (Inl f)
         | Inr bs \<Rightarrow> Some (w_copy_raw st p q v (1 + unat (le_word bs)) 1))
      else if ADB_VAL_TYPE v = ADB_TYPE_BLOB_16 then
        (case deref_bytes (st q) (adb_r_deref (st q) v 0 2) 2 of
           Inl f \<Rightarrow> Some (Inl f)
         | Inr bs \<Rightarrow> Some (w_copy_raw st p q v (1 + unat (le_word bs)) 1))
      else if ADB_VAL_TYPE v = ADB_TYPE_OBJECT \<or> ADB_VAL_TYPE v = ADB_TYPE_ARRAY then
        (case adb_r_obj (st q) v None of
           Inl f \<Rightarrow> Some (Inl f)
         | Inr ob \<Rightarrow>
             (let sz = unat (adb_ro_num ob) in
              if sz > 512 then
                Some (case adb_w_error (st p) E2BIG of Inl f \<Rightarrow> Inl f | Inr (e, db') \<Rightarrow> Inr (e, st(p := db')))
              else case obj_at ob ADBI_NUM_ENTRIES of
                Inl f \<Rightarrow> Some (Inl f)
              | Inr n0 \<Rightarrow>
                  (case w_copy_slots copy st p q ob [ADBI_FIRST ..< sz] of
                     None \<Rightarrow> None
                   | Some (Inl f) \<Rightarrow> Some (Inl f)
                   | Some (Inr (cs, st')) \<Rightarrow>
                       (case adb_w_data1 (st' p)
                               (Some (concat (map le32_bytes (take sz (n0 # cs)))))
                               sizeof_adb_val_t of
                          Inl f \<Rightarrow> Some (Inl f)
                        | Inr (a, db') \<Rightarrow>
                            Some (Inr (ADB_VAL (ADB_VAL_TYPE v) a, st'(p := db')))))))
      else Some (case adb_w_error (st p) ENOSYS of Inl f \<Rightarrow> Inl f | Inr (e, db') \<Rightarrow> Inr (e, st(p := db'))))"

primrec adb_w_copy ::
  "nat \<Rightarrow> store \<Rightarrow> nat \<Rightarrow> nat \<Rightarrow> adb_val_t \<Rightarrow> (fault + adb_val_t \<times> store) option"
where
  "adb_w_copy 0 = w_copy_body (\<lambda>st p q v. None)"
| "adb_w_copy (Suc n) = w_copy_body (adb_w_copy n)"


subsection \<open>Container creation\<close>

text \<open>
  The output stream is the list of the bytes written to it; writes do not fail.
  \<open>adb_c_adb\<close> refuses a database whose header magic was invalidated (the error code is
  \<open>EAPKFORMAT\<close> of apk_defines.h, here only known to be an error) and, with a null trust
  context, writes the header and the \<open>ADB\<close> block and no signature.
\<close>

definition adb_c_header :: "adb \<Rightarrow> byte list" where
  "adb_c_header db = le32_bytes (magic (hdr db)) @ le32_bytes (schema (hdr db))"

definition adb_c_block :: "32 word \<Rightarrow> apk_blob_t \<Rightarrow> byte list" where
  "adb_c_block ty val =
     (let blk = adb_block_init ty (len val)
      in le32_bytes blk @ take (len val) (blob_bytes val) @ replicate (adb_block_padding blk) 0)"

definition adb_c_adb :: "adb \<Rightarrow> byte list option" where
  "adb_c_adb db =
     (if magic (hdr db) \<noteq> ADB_FORMAT_MAGIC then None
      else Some (adb_c_header db @ adb_c_block ADB_BLOCK_ADB (adb db)))"

subsection \<open>The stream loop after a number of rounds\<close>

text \<open>
  \<open>m_stream_rounds k\<close> runs \<open>k\<close> rounds of the loop of \<open>adb_m_stream\<close>: it gives the
  return value if one of them returns, and the state before round \<open>k + 1\<close> otherwise.
\<close>

fun m_stream_rounds ::
  "apk_trust option \<Rightarrow> (adb \<Rightarrow> nat \<Rightarrow> byte list \<Rightarrow> int) \<Rightarrow> nat \<Rightarrow> adb \<times> bool \<times> nat \<times> apk_istream
     \<Rightarrow> int \<times> adb + adb \<times> bool \<times> nat \<times> apk_istream"
where
  "m_stream_rounds t datacb 0 st = Inr st"
| "m_stream_rounds t datacb (Suc k) (db, trusted, block_no, s) =
     (case m_stream_step t datacb db trusted block_no s of
        Inl res \<Rightarrow> Inl res
      | Inr st' \<Rightarrow> m_stream_rounds t datacb k st')"


section \<open>Properties\<close>

subsection \<open>Unfolding the model on concrete inputs\<close>

lemmas adb_consts = ADB_TYPE_SPECIAL_def ADB_TYPE_INT_def ADB_TYPE_INT_32_def ADB_TYPE_INT_64_def
  ADB_TYPE_BLOB_8_def ADB_TYPE_BLOB_16_def ADB_TYPE_BLOB_32_def ADB_TYPE_ARRAY_def
  ADB_TYPE_OBJECT_def ADB_TYPE_ERROR_def ADB_TYPE_MASK_def ADB_VALUE_MASK_def ADB_VAL_TYPE_def
  ADB_VAL_VALUE_def ADB_VAL_def ADB_NULL_def ADB_VAL_NULL_def

lemma grow_cap_enough: "need \<le> cap \<Longrightarrow> grow_cap need cap = cap"
  by (simp add: grow_cap.simps)

lemmas w_defs = adb_w_int_def adb_w_blob_def adb_w_data1_def adb_w_data_def
  adb_w_init_dynamic_def iovec_hash_def iovec_len_def le32_bytes_def le16_bytes_def
  apk_blob_hash_seed_def w_data_add_def adb_w_raw_def new_bucket_def adb_w_bucket_entries_def
  empty_entry_def APK_BLOB_NULL_def ROUND_UP_def w_store_def w_grow_def arena_def grow_cap_enough

lemmas r_defs = adb_r_int_def adb_r_blob_def r_blob_n_def adb_r_deref_def deref_bytes_def
  mem_read_def sizeof_pointer_def sizeof_adb_val_t_def APK_BLOB_PTR_LEN_def

lemmas m_defs = adb_m_blob_def adb_m_parse_def adb_zero_def adb_block_validate_def block_at_def
  blob_bytes_def mem_read_def adb_block_rawsize_def adb_block_size_def adb_block_length_def
  adb_block_type_def adb_block_blob_def m_parse_block_def ADB_BLOCK_ADB_def ADB_BLOCK_SIG_def
  ADB_BLOCK_DATA_def ADB_BLOCK_ALIGNMENT_def sizeof_adb_block_def sizeof_adb_header_def
  ROUND_UP_def APK_BLOB_NULL_def APK_BLOB_IS_NULL_def APK_BLOB_PTR_LEN_def EBADMSG_def ENOKEY_def

lemma replicate_numeral_Cons: "replicate (numeral v) x = x # replicate (numeral v - 1) x"
  by (simp add: numeral_eq_Suc)

subsection \<open>The trusted flag and the rounds of the stream loop\<close>

lemmas errno_defs = EIO_def E2BIG_def ENOSYS_def ENOMSG_def EBADMSG_def ENOBUFS_def ENOKEY_def EKEYREJECTED_def

lemma m_stream_step_trusted:
  assumes cb: "\<And>d n seg. datacb d n seg \<noteq> - ENOKEY"
  shows "m_stream_step t datacb db True bn s = Inl (r, d) \<Longrightarrow> r \<noteq> - ENOKEY"
    and "m_stream_step t datacb db True bn s = Inr (d', tr', bn', s') \<Longrightarrow> tr'"
  using cb [of db]
  by (auto simp: m_stream_step_def apk_istream_read_def apk_istream_get_def stream_err_def Let_def
       errno_defs split: if_splits prod.splits sum.splits)

lemma m_stream_step_inv:
  "m_stream_step t datacb db tr bn s = Inr (db', tr', bn', s') \<Longrightarrow>
     bn' = Suc bn \<and> \<not> APK_BLOB_IS_NULL (adb db')"
  by (auto simp: m_stream_step_def Let_def APK_BLOB_IS_NULL_def split: if_splits prod.splits sum.splits)

lemma m_stream_loop_trusted:
  "\<forall>d n seg. datacb d n seg \<noteq> - ENOKEY \<Longrightarrow> tr \<Longrightarrow>
     fst (m_stream_loop t datacb db tr bn s) \<noteq> - ENOKEY"
proof (induction t datacb db tr bn s rule: m_stream_loop.induct)
  case (1 t datacb db trusted block_no s)
  from 1(2) have cb: "\<And>d n seg. datacb d n seg \<noteq> - ENOKEY" by simp
  note ok = m_stream_step_trusted [of datacb, OF cb]
  from 1(3) have tr: "trusted = True" by simp
  show ?case
  proof (cases "m_stream_step t datacb db trusted block_no s")
    case (Inl res)
    obtain r d where res: "res = (r, d)" by (cases res)
    from Inl res tr have "r \<noteq> - ENOKEY" by (auto dest: ok(1))
    with Inl res show ?thesis
      by (simp add: m_stream_loop.simps [of t datacb db trusted block_no s])
  next
    case (Inr st)
    obtain d' tr' bn' s' where st: "st = (d', tr', bn', s')" by (cases st)
    from Inr st tr have "tr'" by (auto dest: ok(2))
    with 1(1) [OF Inr st [THEN sym]] 1(2) Inr st
    show ?thesis by (simp add: m_stream_loop.simps [of t datacb db trusted block_no s])
  qed
qed

lemma m_stream_loop_rounds:
  "m_stream_rounds t datacb k (db, tr, bn, s) = Inr (db', tr', bn', s') \<Longrightarrow>
     m_stream_loop t datacb db tr bn s = m_stream_loop t datacb db' tr' bn' s'"
proof (induction k arbitrary: db tr bn s)
  case 0
  then show ?case by simp
next
  case (Suc k)
  then show ?case
    by (cases "m_stream_step t datacb db tr bn s")
       (auto simp: m_stream_loop.simps [of t datacb db tr bn s])
qed

lemma m_stream_rounds_inv:
  "m_stream_rounds t datacb k (db, tr, bn, s) = Inr (db', tr', bn', s') \<Longrightarrow>
     bn' = bn + k \<and> (k \<noteq> 0 \<longrightarrow> \<not> APK_BLOB_IS_NULL (adb db'))"
proof (induction k arbitrary: db tr bn s)
  case 0
  then show ?case by simp
next
  case (Suc k)
  from Suc.prems obtain d1 t1 b1 s1 where
    st: "m_stream_step t datacb db tr bn s = Inr (d1, t1, b1, s1)"
    and rest: "m_stream_rounds t datacb k (d1, t1, b1, s1) = Inr (db', tr', bn', s')"
    by (cases "m_stream_step t datacb db tr bn s") auto
  from m_stream_step_inv [OF st] have b1: "b1 = Suc bn" and nn: "\<not> APK_BLOB_IS_NULL (adb d1)"
    by simp_all
  from Suc.IH [OF rest] have "bn' = b1 + k" and imp: "k \<noteq> 0 \<longrightarrow> \<not> APK_BLOB_IS_NULL (adb db')"
    by simp_all
  moreover have "\<not> APK_BLOB_IS_NULL (adb db')"
  proof (cases k)
    case 0
    with rest nn show ?thesis by simp
  next
    case (Suc j)
    with imp show ?thesis by simp
  qed
  ultimately show ?case using b1 by simp
qed

lemma m_stream_step_order:
  assumes rd: "apk_istream_read s sizeof_adb_block = (int sizeof_adb_block, hb, s1)"
  shows "bn = 0 \<Longrightarrow> adb_block_type (le_word hb) \<noteq> ADB_BLOCK_ADB \<Longrightarrow>
           m_stream_step t datacb db tr bn s = Inl (- EBADMSG, db)"
    and "bn \<noteq> 0 \<Longrightarrow> adb_block_type (le_word hb) = ADB_BLOCK_ADB \<Longrightarrow>
           m_stream_step t datacb db tr bn s = Inl (- EBADMSG, db)"
    and "bn \<noteq> 0 \<Longrightarrow> adb_block_type (le_word hb) = ADB_BLOCK_DATA \<Longrightarrow> \<not> tr \<Longrightarrow>
           \<not> APK_BLOB_IS_NULL (adb db) \<Longrightarrow>
           m_stream_step t datacb db tr bn s = Inl (- ENOKEY, db)"
  using rd
  by (simp_all add: m_stream_step_def sizeof_adb_block_def Let_def stream_err_def errno_defs
        ADB_BLOCK_ADB_def ADB_BLOCK_DATA_def ADB_BLOCK_SIG_def)


lemma le_word_le32_bytes: "le_word (le32_bytes w) = w"
  apply (simp add: le32_bytes_def)
  apply (rule bit_word_eqI)
  apply (auto simp: bit_simps)
  subgoal for n by (cases "n < 24") auto
  done

lemma m_parse_block_trusted: "m_parse_block t db True pos blk = (db', tr') \<Longrightarrow> tr'"
  by (auto simp: m_parse_block_def Let_def split: if_splits)

lemma m_parse_loop_trusted:
  "tr \<Longrightarrow> m_parse_loop t b db tr pos = Inr (blk, db', tr') \<Longrightarrow>
     tr' \<and> (\<forall>e. blk = Blk_Err e \<longrightarrow> e = - EBADMSG)"
proof (induction t b db tr pos rule: m_parse_loop.induct)
  case (1 t b db trusted pos)
  note eq = 1(3) [unfolded m_parse_loop.simps [of t b db trusted pos]]
  show ?case
  proof (cases "adb_block_validate pos b")
    case (Inl f)
    with eq show ?thesis by simp
  next
    case (Inr r)
    show ?thesis
    proof (cases r)
      case Blk_Null
      with Inr 1(2) eq show ?thesis by simp
    next
      case (Blk_Err e)
      with Inr have "e = - EBADMSG"
        by (auto simp: adb_block_validate_def split: if_splits sum.splits)
      with Blk_Err Inr 1(2) eq show ?thesis by auto
    next
      case (Blk p)
      show ?thesis
      proof (cases "block_at b p")
        case (Inl f)
        with Blk Inr eq show ?thesis by simp
      next
        case hd: (Inr blkw)
        obtain d1 t1 where st: "m_parse_block t db trusted p blkw = (d1, t1)"
          by (cases "m_parse_block t db trusted p blkw")
        with 1(2) have t1: "t1" by (auto dest: m_parse_block_trusted)
        from eq Blk Inr hd st
        have "m_parse_loop t b d1 t1 (p + adb_block_size blkw) = Inr (blk, db', tr')"
          by simp
        from 1(1) [OF Inr Blk hd st [THEN sym] t1 this] show ?thesis .
      qed
    qed
  qed
qed

lemma adb_m_parse_null_trust: "adb_m_parse db None = Inr (r, db') \<Longrightarrow> r \<noteq> - ENOKEY"
  by (auto simp: adb_m_parse_def Let_def errno_defs split: sum.splits prod.splits blk_ptr.splits if_splits
       dest!: m_parse_loop_trusted [rotated])

subsection \<open>A container of one ADB block\<close>

lemma mask30: "(0x3fffffff :: 32 word) = mask 30"
  by (simp add: mask_eq_exp_minus_1)

lemma block_init_ADB:
  assumes "l + 4 < 2 ^ 30"
  shows "adb_block_rawsize (adb_block_init ADB_BLOCK_ADB l) = 4 + l"
    and "adb_block_type (adb_block_init ADB_BLOCK_ADB l) = ADB_BLOCK_ADB"
    and "adb_block_length (adb_block_init ADB_BLOCK_ADB l) = l"
proof -
  define w :: "32 word" where "w = of_nat (4 + l)"
  have w: "adb_block_init ADB_BLOCK_ADB l = w"
    by (simp add: adb_block_init_def ADB_BLOCK_ADB_def sizeof_adb_block_def w_def)
  from assms have un: "unat w = 4 + l"
    unfolding w_def by (simp add: unat_of_nat del: of_nat_add)
  have "take_bit 30 (unat w) = unat w"
    using assms un by (simp add: take_bit_eq_mod)
  then have "unat (take_bit 30 w) = unat w"
    by (simp only: unsigned_take_bit_eq)
  then have tb: "take_bit 30 w = w"
    by (rule unsigned_word_eqI)
  show "adb_block_rawsize (adb_block_init ADB_BLOCK_ADB l) = 4 + l"
    using un tb by (simp add: w adb_block_rawsize_def mask30 flip: take_bit_eq_mask)
  have "drop_bit 30 (unat w) = 0"
    using assms un by (simp add: drop_bit_eq_div)
  then have "unat (drop_bit 30 w) = 0"
    by (simp only: unat_drop_bit_eq)
  then have "drop_bit 30 w = 0"
    by (simp add: unat_eq_0)
  then show "adb_block_type (adb_block_init ADB_BLOCK_ADB l) = ADB_BLOCK_ADB"
    unfolding w by (simp add: adb_block_type_def ADB_BLOCK_ADB_def)
  have "w - 4 = of_nat l" by (simp add: w_def)
  moreover from assms have "unat (of_nat l :: 32 word) = l"
    by (simp add: unat_of_nat)
  ultimately show "adb_block_length (adb_block_init ADB_BLOCK_ADB l) = l"
    using tb by (simp add: w adb_block_length_def mask30 flip: take_bit_eq_mask)
qed


lemma ROUND_UP_32_ge: "x \<le> ROUND_UP x 32" "0 < x \<Longrightarrow> 0 < ROUND_UP x 32"
  by (simp_all add: ROUND_UP_def)

lemma length_le32_bytes [simp]: "length (le32_bytes w) = 4"
  by (simp add: le32_bytes_def)

lemma adb_c_block_ADB:
  assumes "length bs + 4 < 2 ^ 30"
  defines "blk \<equiv> adb_block_init ADB_BLOCK_ADB (length bs)"
  defines "C \<equiv> adb_c_block ADB_BLOCK_ADB \<lparr>len = length bs, ptr = Some bs\<rparr>"
  shows "length C = adb_block_size blk"
    and "take 4 C = le32_bytes blk"
    and "take (length bs) (drop 4 C) = bs"
    and "32 \<le> length C"
proof -
  have raw: "adb_block_rawsize blk = 4 + length bs"
    unfolding blk_def by (rule block_init_ADB(1) [OF assms(1)])
  have C: "C = le32_bytes blk @ bs @ replicate (adb_block_size blk - (4 + length bs)) 0"
    by (simp add: C_def adb_c_block_def blk_def [symmetric] Let_def blob_bytes_def
          adb_block_padding_def raw)
  have ge: "4 + length bs \<le> adb_block_size blk"
    using ROUND_UP_32_ge(1) [of "4 + length bs"]
    by (simp add: adb_block_size_def raw ADB_BLOCK_ALIGNMENT_def)
  show "length C = adb_block_size blk" using ge by (simp add: C)
  show "take 4 C = le32_bytes blk" by (simp add: C)
  show "take (length bs) (drop 4 C) = bs" by (simp add: C)
  have "32 \<le> adb_block_size blk"
    by (simp add: adb_block_size_def raw ADB_BLOCK_ALIGNMENT_def ROUND_UP_def)
  with ge show "32 \<le> length C" by (simp add: C)
qed

lemma adb_m_parse_single_ADB:
  assumes l: "length bs + 4 < 2 ^ 30"
    and nn: "ptr (adb db) = None"
    and dt: "data db = \<lparr>len = length (adb_c_block ADB_BLOCK_ADB \<lparr>len = length bs, ptr = Some bs\<rparr>),
                        ptr = Some (adb_c_block ADB_BLOCK_ADB \<lparr>len = length bs, ptr = Some bs\<rparr>)\<rparr>"
  shows "adb_m_parse db None = Inr (0, db\<lparr>adb := \<lparr>len = length bs, ptr = Some bs\<rparr>\<rparr>)"
proof -
  define blk where "blk = adb_block_init ADB_BLOCK_ADB (length bs)"
  define C where "C = adb_c_block ADB_BLOCK_ADB \<lparr>len = length bs, ptr = Some bs\<rparr>"
  note c = adb_c_block_ADB [OF l, folded blk_def C_def]
  note bi = block_init_ADB [OF l, folded blk_def]
  define b where "b = \<lparr>len = length C, ptr = Some C\<rparr>"
  have dt': "data db = b" using dt by (simp add: C_def b_def)
  have at0: "block_at b 0 = Inr blk"
    using c by (simp add: block_at_def b_def blob_bytes_def mem_read_def sizeof_adb_block_def
                  le_word_le32_bytes)
  have v0: "adb_block_validate 0 b = Inr (Blk 0)"
    using c bi by (simp add: adb_block_validate_def at0 sizeof_adb_block_def) (simp add: b_def)
  have pb: "m_parse_block None db True 0 blk = (db\<lparr>adb := \<lparr>len = length bs, ptr = Some bs\<rparr>\<rparr>, True)"
    using c bi nn
    by (simp add: m_parse_block_def Let_def adb_block_blob_def dt' b_def blob_bytes_def
          APK_BLOB_IS_NULL_def APK_BLOB_PTR_LEN_def sizeof_adb_block_def)
  have v1: "adb_block_validate (adb_block_size blk) b = Inr Blk_Null"
    using c by (simp add: adb_block_validate_def b_def)
  have "m_parse_loop None b db True 0
          = Inr (Blk_Null, db\<lparr>adb := \<lparr>len = length bs, ptr = Some bs\<rparr>\<rparr>, True)"
    by (simp add: m_parse_loop.simps [of None b db True 0] v0 at0 pb
          m_parse_loop.simps [of None b _ True "adb_block_size blk"] v1)
  then show ?thesis by (simp add: adb_m_parse_def dt')
qed


lemma adb_m_blob_single_ADB:
  assumes "length bs + 4 < 2 ^ 30"
  shows "\<exists>d. adb_m_blob \<lparr>len = length (adb_c_block ADB_BLOCK_ADB \<lparr>len = length bs, ptr = Some bs\<rparr>),
                        ptr = Some (adb_c_block ADB_BLOCK_ADB \<lparr>len = length bs, ptr = Some bs\<rparr>)\<rparr> None
               = Inr (0, d) \<and> adb d = \<lparr>len = length bs, ptr = Some bs\<rparr>"
  unfolding adb_m_blob_def
  by (subst adb_m_parse_single_ADB [OF assms]) (simp_all add: adb_zero_def APK_BLOB_NULL_def)

lemma adb_m_map_single_ADB:
  assumes "length bs + 4 < 2 ^ 30" and "magic (hdr wdb) = ADB_FORMAT_MAGIC"
    and "adb wdb = \<lparr>len = length bs, ptr = Some bs\<rparr>"
  shows "\<exists>d. adb_m_map (the (adb_c_adb wdb)) 0 None = Inr (0, d) \<and> adb d = adb wdb"
proof -
  define C where "C = adb_c_block ADB_BLOCK_ADB \<lparr>len = length bs, ptr = Some bs\<rparr>"
  have F: "the (adb_c_adb wdb) = adb_c_header wdb @ C"
    using assms by (simp add: adb_c_adb_def C_def)
  have lh: "length (adb_c_header wdb) = 8" by (simp add: adb_c_header_def)
  have mg: "le_word (take 4 (adb_c_header wdb)) = ADB_FORMAT_MAGIC"
    using assms(2) by (simp add: adb_c_header_def le_word_le32_bytes)
  show ?thesis
    unfolding F adb_m_map_def
    apply (simp add: lh mg sizeof_adb_header_def Let_def APK_BLOB_PTR_LEN_def)
    apply (subst adb_m_parse_single_ADB [OF assms(1)])
      apply (simp_all add: adb_zero_def APK_BLOB_NULL_def C_def assms(3))
    done
qed


lemma adb_m_stream_single_ADB:
  assumes l: "length bs + 4 < 2 ^ 30" and m: "magic (hdr wdb) = ADB_FORMAT_MAGIC"
    and a: "adb wdb = \<lparr>len = length bs, ptr = Some bs\<rparr>"
  shows "\<exists>d. adb_m_stream adb_zero (Inr \<lparr>is_bytes = the (adb_c_adb wdb), is_buf_size = n\<rparr>) es None datacb
               = (0, d)
             \<and> len (adb d) = length bs \<and> map_option (take (length bs)) (ptr (adb d)) = Some bs"
proof -
  define blk where "blk = adb_block_init ADB_BLOCK_ADB (length bs)"
  define C where "C = adb_c_block ADB_BLOCK_ADB \<lparr>len = length bs, ptr = Some bs\<rparr>"
  note c = adb_c_block_ADB [OF l, folded blk_def C_def]
  note bi = block_init_ADB [OF l, folded blk_def]
  have F: "the (adb_c_adb wdb) = adb_c_header wdb @ C"
    using m a by (simp add: adb_c_adb_def C_def)
  have lh: "length (adb_c_header wdb) = 8" by (simp add: adb_c_header_def)
  have mg: "le_word (take 4 (adb_c_header wdb)) = ADB_FORMAT_MAGIC"
    using m by (simp add: adb_c_header_def le_word_le32_bytes)
  have sz: "(adb_block_size blk + 2 ^ 64 - 4) mod 2 ^ 64 = length C - 4"
  proof -
    have "adb_block_size blk < 2 ^ 31"
      using bi(1) l by (simp add: adb_block_size_def ROUND_UP_def ADB_BLOCK_ALIGNMENT_def)
    with c(4) c(1) show ?thesis by (simp add: mod_if)
  qed
  from sz have sz': "(18446744073709551612 + adb_block_size blk) mod 18446744073709551616 = length C - 4"
    by simp
  have C4: "take 4 C = le32_bytes blk" by (rule c(2))
  have st0: "m_stream_step None datacb d0 True 0 \<lparr>is_bytes = C, is_buf_size = n\<rparr>
               = Inr (d0\<lparr>adb := \<lparr>len = length bs, ptr = Some (drop 4 C)\<rparr>\<rparr>, True, Suc 0,
                      \<lparr>is_bytes = [], is_buf_size = n\<rparr>)"
    if "ptr (adb d0) = None" for d0
    using c(4) bi that
    by (simp add: m_stream_step_def apk_istream_read_def sizeof_adb_block_def Let_def C4
          le_word_le32_bytes sz' APK_BLOB_IS_NULL_def min_def)
  have st1: "m_stream_step None datacb d1 True (Suc 0) \<lparr>is_bytes = [], is_buf_size = n\<rparr> = Inl (0, d1)"
    if "ptr (adb d1) = Some (drop 4 C)" for d1
    using that by (simp add: m_stream_step_def apk_istream_read_def sizeof_adb_block_def)
  have "\<exists>d. adb_m_stream adb_zero (Inr \<lparr>is_bytes = the (adb_c_adb wdb), is_buf_size = n\<rparr>) es None datacb
          = (0, d) \<and> adb d = \<lparr>len = length bs, ptr = Some (drop 4 C)\<rparr>"
    by (simp add: adb_m_stream_def F apk_istream_read_def sizeof_adb_header_def lh mg Let_def
          m_stream_loop.simps [of None datacb _ True 0] st0 adb_zero_def APK_BLOB_NULL_def
          m_stream_loop.simps [of None datacb _ True "Suc 0"] st1)
  then show ?thesis using c(3) by auto
qed

lemma m_stream_step_None_trusted:
  "m_stream_step None datacb db True bn s = Inr (d', tr', bn', s') \<Longrightarrow> tr'"
  by (auto simp: m_stream_step_def Let_def split: if_splits prod.splits sum.splits)

lemma m_stream_step_SIG_skipped:
  "m_stream_step None datacb db tr bn s = Inr (d', tr', bn', s') \<Longrightarrow>
   fst (snd (apk_istream_read s sizeof_adb_block)) = hb \<Longrightarrow>
   adb_block_type (le_word hb) = ADB_BLOCK_SIG \<Longrightarrow> d' = db \<and> tr' = tr"
  by (auto simp: m_stream_step_def Let_def ADB_BLOCK_SIG_def ADB_BLOCK_ADB_def
        split: if_splits prod.splits sum.splits)

subsection \<open>Reading integers\<close>

text \<open>
  C4. \<open>adb_r_int\<close> returns the inline payload for \<open>INT\<close>, the little-endian integer at
  the referenced offset for an \<open>INT_32\<close> whose four bytes lie within the arena, and zero
  for every other tag. The code asks \<open>adb_r_deref\<close> for \<open>sizeof int4\<close> bytes, the size of
  the pointer, so an \<open>INT_32\<close> in the last four bytes of the arena reads as zero: a fresh
  writable database that has just stored \<open>2 ^ 28\<close> holds the four bytes
  \<open>00 00 00 10\<close> at offset 0, and reading the value back gives 0.
\<close>

theorem adb_r_int_int32_at_arena_end:
  "(case adb_w_int (adb_w_init_dynamic 0 1) 0x10000000 of
      Inl e \<Rightarrow> None
    | Inr (v, db) \<Rightarrow> Some (v, adb db, mem_read (arena db) (unat (ADB_VAL_VALUE v)) 4, adb_r_int db v))
   = Some (0x20000000, \<lparr>len = 4, ptr = Some [0, 0, 0, 0x10]\<rparr>, Inr [0, 0, 0, 0x10], Inr 0)
   \<and> le_word [0, 0, 0, 0x10] = 0x10000000"
  by (simp add: w_defs r_defs adb_consts)

subsection \<open>Reading blobs\<close>

text \<open>
  C3. \<open>adb_r_blob\<close> is bounds-checked against the arena length and returns the null blob
  whenever the length prefix or the data would extend past the arena. The code checks the
  data pointer only by passing it on; the pointer to the length prefix is dereferenced as
  \<open>adb_r_deref\<close> returns it. For an arena of four bytes whose root value is
  \<open>BLOB_8\<close> at offset 4, the prefix lies behind the arena, \<open>adb_r_deref\<close> returns the
  null pointer and \<open>adb_r_blob\<close> reads through it, where \<open>adb_r_int\<close> on an \<open>INT_32\<close>
  at the same offset tests the pointer and returns 0.
\<close>

theorem adb_r_blob_prefix_behind_arena:
  "adb_r_root (adb_zero\<lparr>adb := \<lparr>len = 4, ptr = Some [4, 0, 0, 0x80]\<rparr>\<rparr>) = Inr 0x80000004
   \<and> ADB_VAL_TYPE 0x80000004 = ADB_TYPE_BLOB_8
   \<and> adb_r_deref (adb_zero\<lparr>adb := \<lparr>len = 4, ptr = Some [4, 0, 0, 0x80]\<rparr>\<rparr>) 0x80000004 0 1 = None
   \<and> adb_r_blob (adb_zero\<lparr>adb := \<lparr>len = 4, ptr = Some [4, 0, 0, 0x80]\<rparr>\<rparr>) 0x80000004
       = Inl NullDeref
   \<and> adb_r_int (adb_zero\<lparr>adb := \<lparr>len = 4, ptr = Some [4, 0, 0, 0x80]\<rparr>\<rparr>) 0x20000004 = Inr 0"
  by (simp add: adb_zero_def adb_r_root_def r_defs adb_consts arena_def)

subsection \<open>Interning\<close>

text \<open>
  C1. When \<open>adb_w_data\<close> returns the offset of an interned entry, the arena bytes at that
  offset equal the candidate and the offset is a multiple of the requested alignment. The
  code tests \<open>entry->offs & alignment\<close>, one bit of the offset, and not the bits below
  the alignment. In a fresh writable database, the blob \<open>"x"\<close> takes offsets 0 and 1 and the
  three-byte blob \<open>01 02 10\<close> is stored with its prefix as \<open>03 01 02 10\<close> at offset 2.
  The candidate \<open>03 01 02 10\<close> with alignment 4 then finds that entry, \<open>2 & 4\<close> is 0, and
  the function returns offset 2 without appending; 2 is not a multiple of 4.
\<close>

theorem adb_w_data_reuses_misaligned_entry:
  "(case adb_w_blob (adb_w_init_dynamic 0 1) \<lparr>len = 1, ptr = Some [0x78]\<rparr> of
      Inl f \<Rightarrow> Inl f
    | Inr (v1, d1) \<Rightarrow>
       (case adb_w_blob d1 \<lparr>len = 3, ptr = Some [1, 2, 0x10]\<rparr> of
          Inl f \<Rightarrow> Inl f
        | Inr (v2, d2) \<Rightarrow>
           (case adb_w_data d2 [[3, 1, 2, 0x10]] 4 of
              Inl f \<Rightarrow> Inl f
            | Inr (p, d3) \<Rightarrow> Inr (v1, v2, adb d2, p, adb d3, p mod 4))))
   = Inr (0x80000000, 0x80000002, \<lparr>len = 6, ptr = Some [1, 0x78, 3, 1, 2, 0x10]\<rparr>,
          2, \<lparr>len = 6, ptr = Some [1, 0x78, 3, 1, 2, 0x10]\<rparr>, 2)"
  by (simp add: w_defs adb_consts replicate_numeral_Cons)

subsection \<open>Writing integers\<close>

text \<open>
  C8. \<open>adb_w_int\<close> returns an inline \<open>INT\<close> for \<open>v < 2 ^ 28\<close> and otherwise stores four
  little-endian bytes at a 4-byte-aligned offset and returns an \<open>INT_32\<close> referencing it.
  The payload goes through \<open>adb_w_data\<close> with alignment 4, and its alignment test lets
  an entry at offset 2 pass: after the blobs \<open>"x"\<close> and \<open>01 02 10\<close>, writing the integer
  \<open>0x10020103\<close> (bytes \<open>03 01 02 10\<close>) returns \<open>INT_32\<close> with offset 2 and leaves the
  arena as it was.
\<close>

theorem adb_w_int_returns_misaligned_offset:
  "(case adb_w_blob (adb_w_init_dynamic 0 1) \<lparr>len = 1, ptr = Some [0x78]\<rparr> of
      Inl f \<Rightarrow> Inl f
    | Inr (v1, d1) \<Rightarrow>
       (case adb_w_blob d1 \<lparr>len = 3, ptr = Some [1, 2, 0x10]\<rparr> of
          Inl f \<Rightarrow> Inl f
        | Inr (v2, d2) \<Rightarrow>
           (case adb_w_int d2 0x10020103 of
              Inl f \<Rightarrow> Inl f
            | Inr (v3, d3) \<Rightarrow>
                Inr (adb d2, v3, ADB_VAL_TYPE v3 = ADB_TYPE_INT_32, unat (ADB_VAL_VALUE v3) mod 4,
                     adb d3))))
   = Inr (\<lparr>len = 6, ptr = Some [1, 0x78, 3, 1, 2, 0x10]\<rparr>, 0x20000002, True, 2,
          \<lparr>len = 6, ptr = Some [1, 0x78, 3, 1, 2, 0x10]\<rparr>)"
  by (simp add: w_defs adb_consts replicate_numeral_Cons)

subsection \<open>Copying between databases\<close>

text \<open>
  C9. \<open>adb_w_copy(db, db, v)\<close> with the same database as source and destination returns
  \<open>v\<close> and changes nothing: whatever the depth allowed, the store and the value come
  back as they were.
\<close>

theorem adb_w_copy_same_db: "adb_w_copy n st p p v = Some (Inr (v, st))"
  by (cases n) (simp_all add: w_copy_body_def)

text \<open>
  C6. \<open>adb_w_copy\<close> of a \<open>BLOB_16\<close> copies the 2-byte prefix and all the data with
  2-byte alignment, and the copy reads back equal to the source. The code computes the
  size as \<open>1UL + *(uint16_t*) ptr\<close>, as its \<open>BLOB_8\<close> case does, and leaves the alignment
  at 1. A blob of 256 bytes \<open>41\<close> written by \<open>adb_w_blob\<close> is \<open>BLOB_16\<close> at offset 0 of a
  258-byte arena; its copy into a fresh database has 257 bytes, the last data byte is
  missing, and reading the copied value gives length 256 with a null pointer.
\<close>

theorem adb_w_copy_blob16_drops_last_byte:
  "(case adb_w_blob (adb_w_init_dynamic 0 1) \<lparr>len = 256, ptr = Some (replicate 256 0x41)\<rparr> of
      Inl f \<Rightarrow> None
    | Inr (v, src) \<Rightarrow>
       (case adb_w_copy 0 ((\<lambda>_. adb_zero)(0 := adb_w_init_dynamic 0 1, 1 := src)) 0 1 v of
          None \<Rightarrow> None
        | Some (Inl f) \<Rightarrow> None
        | Some (Inr (v', st')) \<Rightarrow>
            Some (v, adb src = \<lparr>len = 258, ptr = Some ([0, 1] @ replicate 256 0x41)\<rparr>,
                  adb_r_blob src v = Inr \<lparr>len = 256, ptr = Some (replicate 256 0x41)\<rparr>,
                  v', adb (st' 0) = \<lparr>len = 257, ptr = Some ([0, 1] @ replicate 255 0x41)\<rparr>,
                  adb_r_blob (st' 0) v')))
   = Some (0x90000000, True, True, 0x90000000, True, Inr \<lparr>len = 256, ptr = None\<rparr>)"
  by (simp add: w_defs r_defs adb_consts replicate_numeral_Cons w_copy_body_def w_copy_raw_def
        adb_zero_def)

subsection \<open>Parsing a mapped range\<close>

text \<open>
  C5. In map mode and blob mode the parse succeeds only when the first block is the
  \<open>ADB\<close> block; a container whose first block has another type is rejected as malformed.
  The \<open>switch\<close> of \<open>__adb_m_parse\<close> has the tests for a block before the \<open>ADB\<close> block,
  but each ends in \<open>break\<close>, which leaves the \<open>switch\<close> and not the loop, where
  \<open>adb_m_stream\<close> has \<open>goto bad_msg\<close>. A range that starts with an empty \<open>SIG\<close> block
  and goes on with an \<open>ADB\<close> block of payload \<open>07 00 00 10\<close> parses with result 0 and
  that payload as arena, in blob mode and, behind a file header, in map mode.
\<close>

theorem adb_m_parse_accepts_SIG_before_ADB:
  "(case adb_m_blob \<lparr>len = 64,
                     ptr = Some ([4, 0, 0, 0x40] @ replicate 28 0
                                 @ [8, 0, 0, 0] @ [7, 0, 0, 0x10] @ replicate 24 0)\<rparr> None of
      Inl f \<Rightarrow> Inl f
    | Inr (r, db) \<Rightarrow> Inr (r, adb db))
   = Inr (0, \<lparr>len = 4, ptr = Some [7, 0, 0, 0x10]\<rparr>)
   \<and> (case adb_m_map ([0x41, 0x44, 0x42, 0x2e] @ [0, 0, 0, 0]
                        @ [4, 0, 0, 0x40] @ replicate 28 0
                        @ [8, 0, 0, 0] @ [7, 0, 0, 0x10] @ replicate 24 0) 0 None of
         Inl f \<Rightarrow> Inl f
       | Inr (r, db) \<Rightarrow> Inr (r, adb db))
     = Inr (0, \<lparr>len = 4, ptr = Some [7, 0, 0, 0x10]\<rparr>)
   \<and> adb_block_type (le_word [4, 0, 0, 0x40]) = ADB_BLOCK_SIG
   \<and> adb_block_type (le_word [8, 0, 0, 0]) = ADB_BLOCK_ADB"
  by (simp add: m_defs adb_m_map_def ADB_FORMAT_MAGIC_def replicate_numeral_Cons
        m_parse_loop.simps [of _ _ _ _ "0"] m_parse_loop.simps [of _ _ _ _ "32"]
        m_parse_loop.simps [of _ _ _ _ "64"])

end
